theory Spec2Isabelle
  imports Complex_Main "HOL-Library.Monad_Syntax"
begin

section \<open>Library functions used by the exporter\<close>

text \<open>
  Go strings are byte sequences; they are modelled as \<open>string\<close> (a list of \<open>char\<close>).
  Costs are \<open>float64\<close> in the source; they are modelled as real numbers, so the rounding
  of floating-point arithmetic is not part of the model.
\<close>

type_synonym cost = real

subsection \<open>\<open>fmt.Sprintf\<close> with the verbs \<open>%04d\<close> and \<open>%02d\<close>\<close>

definition digit_char :: "nat \<Rightarrow> char" where
  "digit_char d = ''0123456789'' ! d"

fun dec :: "nat \<Rightarrow> string" where
  "dec n = (if n < 10 then [digit_char n] else dec (n div 10) @ [digit_char (n mod 10)])"

declare dec.simps [simp del]

text \<open>
  \<open>%0wd\<close>: the decimal digits, padded with zeros on the left to width \<open>w\<close>; the sign
  of a negative number counts for the width and comes before the zeros.
\<close>

definition pad0 :: "nat \<Rightarrow> string \<Rightarrow> string" where
  "pad0 w s = replicate (w - length s) (CHR ''0'') @ s"

definition fmt_0d :: "nat \<Rightarrow> int \<Rightarrow> string" where
  "fmt_0d w n = (if n < 0 then CHR ''-'' # pad0 (w - 1) (dec (nat (- n))) else pad0 w (dec (nat n)))"

subsection \<open>\<open>strings.Split\<close> with a one-byte separator, \<open>strings.Join\<close>, \<open>strings.HasPrefix\<close>\<close>

fun split_on :: "char \<Rightarrow> string \<Rightarrow> string list" where
  "split_on c [] = [[]]"
| "split_on c (x # xs) =
     (if x = c then [] # split_on c xs
      else (case split_on c xs of p # ps \<Rightarrow> (x # p) # ps | [] \<Rightarrow> [[x]]))"

fun join :: "string \<Rightarrow> string list \<Rightarrow> string" where
  "join sep [] = []"
| "join sep [x] = x"
| "join sep (x # y # ys) = x @ sep @ join sep (y # ys)"

definition HasPrefix :: "string \<Rightarrow> string \<Rightarrow> bool" where
  "HasPrefix s p = (take (length p) s = p)"

subsection \<open>\<open>strconv.Atoi\<close>\<close>

text \<open>
  \<open>strconv.Atoi\<close> accepts an optional sign followed by at least one decimal digit and
  fails on anything else, and on a value outside the 64-bit range of \<open>int\<close>.
\<close>

definition is_digit :: "char \<Rightarrow> bool" where
  "is_digit c = (c \<in> set ''0123456789'')"

definition digit_val :: "char \<Rightarrow> int" where
  "digit_val c = int (of_char c) - 48"

definition digits_val :: "string \<Rightarrow> int" where
  "digits_val ds = foldl (\<lambda>acc c. 10 * acc + digit_val c) 0 ds"

definition Atoi :: "string \<Rightarrow> int option" where
  "Atoi s =
     (let neg = (s \<noteq> [] \<and> hd s = CHR ''-'');
          ds = (if s \<noteq> [] \<and> (hd s = CHR ''-'' \<or> hd s = CHR ''+'') then tl s else s)
      in if ds = [] \<or> \<not> list_all is_digit ds then None
         else (let v = (if neg then - digits_val ds else digits_val ds)
               in if v < - (2 ^ 63) \<or> 2 ^ 63 - 1 < v then None else Some v))"

section \<open>GCP: candidate prefixes and service names (gcp/gcp\_billing.go)\<close>

text \<open>What \<open>time.Time.Date()\<close> returns: year, month (January is 1) and day.\<close>

record date =
  year :: int
  month :: int
  day :: int

definition January :: int where "January = 1"
definition December :: int where "December = 12"

text \<open>\<open>fmt.Sprintf("%s-%04d-%02d-", prefix, y, m)\<close>\<close>

definition month_prefix :: "string \<Rightarrow> int \<Rightarrow> int \<Rightarrow> string" where
  "month_prefix p y m = p @ ''-'' @ fmt_0d 4 y @ ''-'' @ fmt_0d 2 m @ ''-''"

text \<open>
  \<open>filterLastTwoMonths\<close>, as a function of the report prefix and of the clock's reading.
\<close>

definition filterLastTwoMonths :: "string \<Rightarrow> date \<Rightarrow> string list" where
  "filterLastTwoMonths ReportPrefix now =
     (let currentYear = year now;
          currentMonth = month now;
          lastMonth = (if currentMonth = January then December else currentMonth - 1);
          lastMonthsYear = (if currentMonth = January then currentYear - 1 else currentYear)
      in [month_prefix ReportPrefix currentYear currentMonth,
          month_prefix ReportPrefix lastMonthsYear lastMonth])"

record gcpBillingMeasurements =
  Unit_m :: string
  Sum_m :: string
  MeasurementID :: string

record gcpBillingCost =
  Amount :: string
  Currency :: string
  CreditID :: string
  Value :: cost

record gcpBillingElement =
  ProjectName :: string
  ProjectID :: string
  ServiceName :: string
  Measurements :: "gcpBillingMeasurements list"
  Cost :: gcpBillingCost
  Credits :: "gcpBillingCost list"

definition GetServiceName :: "gcpBillingElement \<Rightarrow> string" where
  "GetServiceName e =
     (if ServiceName e \<noteq> [] then ServiceName e
      else if length (Measurements e) \<noteq> 1 then ''misc''
      else (let service = MeasurementID (hd (Measurements e));
                parts = split_on (CHR ''/'') service
            in if length parts \<ge> 3 \<and> parts ! 1 = ''services'' then parts ! 2 else service))"


definition GetValue :: "(string \<Rightarrow> cost option) \<Rightarrow> gcpBillingElement \<Rightarrow> cost" where
  "GetValue ParseFloat e =
     (if Amount (Cost e) \<noteq> [] then
        (case ParseFloat (Amount (Cost e)) of None \<Rightarrow> Value (Cost e) | Some v \<Rightarrow> v)
      else Value (Cost e))"

text \<open>
  \<open>strconv.ParseFloat\<close> is library code; it is a parameter of the model (\<open>None\<close> is a
  parse error). \<open>GetValue\<close> logs a warning on a parse error; that warning is not
  recorded.
\<close>

section \<open>The report reducer\<close>

text \<open>
  \<open>reduceElementsByFunc\<close> keeps a map from keys to pointers into the output slice and adds
  to the element a pointer refers to. Here the map holds the index of the element in the
  output list.
\<close>

definition newGroupElem :: "(string \<Rightarrow> cost option) \<Rightarrow> gcpBillingElement \<Rightarrow> gcpBillingElement" where
  "newGroupElem ParseFloat elem =
     \<lparr>ProjectName = ProjectName elem, ProjectID = ProjectID elem,
      ServiceName = GetServiceName elem, Measurements = [],
      Cost = \<lparr>Amount = [], Currency = Currency (Cost elem), CreditID = [],
              Value = GetValue ParseFloat elem\<rparr>,
      Credits = []\<rparr>"

definition addToGroup :: "cost \<Rightarrow> gcpBillingElement \<Rightarrow> gcpBillingElement" where
  "addToGroup v groupElem = groupElem\<lparr>Cost := (Cost groupElem)\<lparr>Value := Value (Cost groupElem) + v\<rparr>\<rparr>"

fun reduceLoop ::
  "(string \<Rightarrow> cost option) \<Rightarrow> (gcpBillingElement \<Rightarrow> string) \<Rightarrow> gcpBillingElement list \<Rightarrow>
   (string \<rightharpoonup> nat) \<Rightarrow> gcpBillingElement list \<Rightarrow> gcpBillingElement list" where
  "reduceLoop ParseFloat fnKey [] keyMap elementsOut = elementsOut"
| "reduceLoop ParseFloat fnKey (elem # rest) keyMap elementsOut =
     (let key = fnKey elem
      in case keyMap key of
           None \<Rightarrow>
             reduceLoop ParseFloat fnKey rest (keyMap(key \<mapsto> length elementsOut))
               (elementsOut @ [newGroupElem ParseFloat elem])
         | Some i \<Rightarrow>
             reduceLoop ParseFloat fnKey rest keyMap
               (elementsOut[i := addToGroup (GetValue ParseFloat elem) (elementsOut ! i)]))"

definition reduceElementsByFunc ::
  "(string \<Rightarrow> cost option) \<Rightarrow> gcpBillingElement list \<Rightarrow> (gcpBillingElement \<Rightarrow> string) \<Rightarrow>
   gcpBillingElement list" where
  "reduceElementsByFunc ParseFloat elementsIn fnKey = reduceLoop ParseFloat fnKey elementsIn Map.empty []"

text \<open>\<open>fmt.Sprintf("%s-%s-%s", e.ProjectID, e.GetServiceName(), e.Cost.Currency)\<close>\<close>

definition groupByProjectIDServiceCurrency :: "gcpBillingElement \<Rightarrow> string" where
  "groupByProjectIDServiceCurrency e =
     ProjectID e @ ''-'' @ GetServiceName e @ ''-'' @ Currency (Cost e)"

definition reduceElementsByProjectIDServiceCurrency ::
  "(string \<Rightarrow> cost option) \<Rightarrow> gcpBillingElement list \<Rightarrow> gcpBillingElement list" where
  "reduceElementsByProjectIDServiceCurrency ParseFloat elementsIn =
     reduceElementsByFunc ParseFloat elementsIn groupByProjectIDServiceCurrency"

section \<open>Outcomes, events and the exported counters\<close>

text \<open>
  A call returns \<open>nil\<close> (\<open>Success\<close>), returns an error (\<open>Failure\<close>), or panics. The state
  a call leaves behind is returned next to the outcome in all three cases, because Go
  keeps the writes made before an error or a panic.
\<close>

datatype error =
    ClientError | ListError | NoReportError | DownloadError | CSVError | CloseError
  | ListParentsError | SingleParentError | DescribeError | UnknownParentError
  | ListAccountsError

datatype outcome = Success | Failure error | Panic

text \<open>
  What a call does to the outside world is recorded as a list of events: the log lines
  (format string and arguments), the object bodies it downloads, and the calls of
  \<open>Add\<close> on a counter (with the grouping key the call was made for).
\<close>

datatype level = Warn | Debug

datatype arg = S string | F cost

datatype event =
    Log level string "arg list"
  | Fetch string
  | CounterAdd string "string list" cost

text \<open>
  A \<open>prometheus.CounterVec\<close>: one counter per tuple of label values.
  \<open>WithLabelValues\<close> creates the counter at 0 when it does not exist yet, and
  \<open>Counter.Add\<close> panics on a negative argument (client\_golang: "counter cannot
  decrease in value").
\<close>

type_synonym CounterVec = "string list \<rightharpoonup> cost"

definition WithLabelValues :: "CounterVec \<Rightarrow> string list \<Rightarrow> CounterVec" where
  "WithLabelValues vec lvs = (case vec lvs of None \<Rightarrow> vec(lvs \<mapsto> 0) | Some _ \<Rightarrow> vec)"

definition counterValue :: "CounterVec \<Rightarrow> string list \<Rightarrow> cost" where
  "counterValue vec lvs = (case vec lvs of None \<Rightarrow> 0 | Some v \<Rightarrow> v)"

definition CounterAddTo :: "CounterVec \<Rightarrow> string list \<Rightarrow> cost \<Rightarrow> CounterVec option" where
  "CounterAddTo vec lvs v = (if v < 0 then None else Some (vec(lvs \<mapsto> counterValue vec lvs + v)))"

text \<open>The deltas a list of events adds to the counters on behalf of one grouping key.\<close>

fun deltasFor :: "string \<Rightarrow> event list \<Rightarrow> cost list" where
  "deltasFor k [] = []"
| "deltasFor k (CounterAdd k' lvs d # evs) = (if k' = k then d # deltasFor k evs else deltasFor k evs)"
| "deltasFor k (_ # evs) = deltasFor k evs"


section \<open>GCP: project metadata (gcp/resources\_metadata.go)\<close>

record resourceMetadata =
  id_rm :: string
  displayName :: string
  owner :: string
  costCentre :: string
  parent :: string

text \<open>Times are nanoseconds on a common axis; \<open>Hour\<close> is \<open>time.Hour\<close>.\<close>

definition Hour :: int where
  "Hour = 3600000000000"

record resourcesMetadata =
  metadataByProjectID :: "string \<rightharpoonup> resourceMetadata"
  metadataByID :: "string \<rightharpoonup> resourceMetadata"
  ownerLabel :: string
  costCentreLabel :: string
  lastUpdate :: int

definition ingest :: "resourcesMetadata \<Rightarrow> resourceMetadata \<Rightarrow> resourcesMetadata" where
  "ingest r e =
     (if HasPrefix (id_rm e) ''projects/''
      then r\<lparr>metadataByProjectID := (metadataByProjectID r)(displayName e \<mapsto> e)\<rparr>
      else r\<lparr>metadataByID := (metadataByID r)(id_rm e \<mapsto> e)\<rparr>)"

text \<open>
  The ancestor-path walk of GCP. The source recurses on the parent without any bound or
  visited set, so the walk may not return: \<open>None\<close> is "does not return".
\<close>

partial_function (option) path ::
  "(string \<rightharpoonup> resourceMetadata) \<Rightarrow> resourceMetadata \<Rightarrow> string list option" where
  "path byID e =
     (if parent e \<noteq> [] then
        (case byID (parent e) of
           Some p \<Rightarrow> Option.bind (path byID p) (\<lambda>r. Some (r @ [displayName p]))
         | None \<Rightarrow> Some [])
      else Some [])"

definition projectByID :: "resourcesMetadata \<Rightarrow> string \<Rightarrow> resourceMetadata option" where
  "projectByID r pid = metadataByProjectID r pid"

text \<open>
  What the resource manager lists. The owner and cost-centre labels of a project are
  decoded by library functions (base32, case mapping); the decoded values are taken as
  given. A project without a parent has a nil \<open>Parent\<close>, which \<open>update\<close> dereferences.
\<close>

record crmProject =
  ProjectNumber :: int
  ProjectId :: string
  ownerDecoded :: string
  costCentreDecoded :: string
  ProjectParent :: "(string \<times> string) option"

record crmFolder =
  FolderName :: string
  FolderDisplayName :: string
  FolderParent :: string

record crmOrganization =
  OrgName :: string
  OrgDisplayName :: string

text \<open>\<open>%d\<close>\<close>

definition fmt_d :: "int \<Rightarrow> string" where
  "fmt_d n = (if n < 0 then CHR ''-'' # dec (nat (- n)) else dec (nat n))"

fun ingestProjects :: "resourcesMetadata \<Rightarrow> crmProject list \<Rightarrow> outcome \<times> resourcesMetadata" where
  "ingestProjects r [] = (Success, r)"
| "ingestProjects r (e # es) =
     (case ProjectParent e of
        None \<Rightarrow> (Panic, r)
      | Some (ptype, pid) \<Rightarrow>
          ingestProjects
            (ingest r \<lparr>id_rm = ''projects/'' @ fmt_d (ProjectNumber e), displayName = ProjectId e,
                       owner = ownerDecoded e, costCentre = costCentreDecoded e,
                       parent = ptype @ ''s/'' @ pid\<rparr>) es)"

definition ingestFolders :: "resourcesMetadata \<Rightarrow> crmFolder list \<Rightarrow> resourcesMetadata" where
  "ingestFolders r es =
     foldl (\<lambda>r e. ingest r \<lparr>id_rm = FolderName e, displayName = FolderDisplayName e,
                             owner = [], costCentre = [], parent = FolderParent e\<rparr>) r es"

definition ingestOrganizations :: "resourcesMetadata \<Rightarrow> crmOrganization list \<Rightarrow> resourcesMetadata" where
  "ingestOrganizations r es =
     foldl (\<lambda>r e. ingest r \<lparr>id_rm = OrgName e, displayName = OrgDisplayName e,
                             owner = [], costCentre = [], parent = []\<rparr>) r es"

text \<open>
  The environment of one call of \<open>update\<close>: the two readings of the clock, whether the
  two API clients can be created, and for each listing the entries of the pages that
  arrive and whether the listing then fails.
\<close>

record lib_env =
  ParseFloat :: "string \<Rightarrow> cost option"

record metadata_env = lib_env +
  md_Now :: int
  md_Now_end :: int
  crmv1_ok :: bool
  crmv2_ok :: bool
  Projects :: "crmProject list \<times> bool"
  Folders :: "crmFolder list \<times> bool"
  Organizations :: "crmOrganization list \<times> bool"

definition update :: "'a metadata_env_scheme \<Rightarrow> resourcesMetadata \<Rightarrow> outcome \<times> resourcesMetadata \<times> event list" where
  "update env r =
     (if md_Now env < lastUpdate r + Hour then (Success, r, [])
      else (let ev = [Log Debug ''renew resource metadata from GCP resourcemanager'' []]
        in if \<not> crmv1_ok env then (Failure ClientError, r, ev)
        else if \<not> crmv2_ok env then (Failure ClientError, r, ev)
        else (let (o1, r1) = ingestProjects r (fst (Projects env))
          in if o1 \<noteq> Success then (o1, r1, ev)
          else if snd (Projects env) then (Failure ListError, r1, ev)
          else (let r2 = ingestFolders r1 (fst (Folders env))
            in if snd (Folders env) then (Failure ListError, r2, ev)
            else (let r3 = ingestOrganizations r2 (fst (Organizations env))
              in if snd (Organizations env) then (Failure ListError, r3, ev)
              else (Success, r3\<lparr>lastUpdate := md_Now_end env\<rparr>, ev))))))"

section \<open>GCP: the report fetcher (gcp/gcp\_billing.go)\<close>

definition ReportsPerMonth :: int where
  "ReportsPerMonth = 32"

text \<open>\<open>Hash\<close> and \<open>MD5\<close> are byte slices; \<open>None\<close> is the nil slice, which
  \<open>reflect.DeepEqual\<close> tells from an empty one.\<close>

record gcpBillingReport =
  Elements :: "gcpBillingElement list"
  Hash :: "string option"

definition emptyReport :: gcpBillingReport where
  "emptyReport = \<lparr>Elements = [], Hash = None\<rparr>"

record ObjectAttrs =
  Name :: string
  MD5 :: "string option"

record GCPBilling =
  BucketName :: string
  ReportPrefix :: string
  Reports :: "gcpBillingReport list"
  ReportsMonthPrefix :: string
  MetricMonthlyCosts :: CounterVec
  metricValues :: "string \<rightharpoonup> cost"
  resourcesMetadata :: resourcesMetadata

text \<open>
  The environment of one call of \<open>GetReports\<close>: the clock's reading, whether the storage
  client can be created, for a bucket and a prefix the objects the iterator yields and
  whether it then fails instead of finishing, whether an object's reader opens, and
  what decoding an object's body into the slice of a cache slot leaves in the slice
  and whether it succeeds. The decoded elements are taken to be non-nil.
\<close>

record gcp_env = metadata_env +
  clock_Now :: date
  NewClient_ok :: bool
  Objects :: "string \<Rightarrow> string \<Rightarrow> ObjectAttrs list \<times> bool"
  NewReader_ok :: "string \<Rightarrow> bool"
  Decode :: "string \<Rightarrow> gcpBillingElement list \<Rightarrow> gcpBillingElement list \<times> bool"

definition logElement :: "(string \<Rightarrow> cost option) \<Rightarrow> string \<Rightarrow> gcpBillingElement \<Rightarrow> event" where
  "logElement pf name elem =
     Log Debug name [S (Currency (Cost elem)), S (GetServiceName elem), S (ProjectID elem),
                     F (GetValue pf elem)]"

definition getReportFile ::
  "gcp_env \<Rightarrow> ObjectAttrs \<Rightarrow> GCPBilling \<Rightarrow> outcome \<times> GCPBilling \<times> event list" where
  "getReportFile env objectAttrs g =
     (let lengthName = length (Name objectAttrs)
      in if lengthName < 8
         then (Success, g, [Log Warn ''invalid report filename'' [S (Name objectAttrs)]])
         else (case Atoi (take 2 (drop (lengthName - 7) (Name objectAttrs))) of
             None \<Rightarrow> (Success, g, [Log Warn ''invalid report filename'' [S (Name objectAttrs), S ''strconv.Atoi'']])
           | Some i0 \<Rightarrow>
               (let i = i0 - 1
                in if i < 0 \<or> ReportsPerMonth \<le> i then (Panic, g, [])
                   else if Hash (Reports g ! nat i) = MD5 objectAttrs
                   then (Success, g, [Log Debug ''report already parsed in cache'' [S (Name objectAttrs)]])
                   else if \<not> NewReader_ok env (Name objectAttrs)
                   then (Success, g, [Log Warn ''failed to read report'' [S (Name objectAttrs)]])
                   else (let (decoded, ok) = Decode env (Name objectAttrs) (Elements (Reports g ! nat i))
                     in if \<not> ok
                        then (Success,
                              g\<lparr>Reports := (Reports g)[nat i := (Reports g ! nat i)\<lparr>Elements := decoded\<rparr>]\<rparr>,
                              [Fetch (Name objectAttrs),
                               Log Warn ''failed to parse report JSON'' [S (Name objectAttrs)]])
                        else (let reduced = reduceElementsByProjectIDServiceCurrency (ParseFloat env) decoded
                          in (Success,
                              g\<lparr>Reports := (Reports g)[nat i := \<lparr>Elements = reduced, Hash = MD5 objectAttrs\<rparr>]\<rparr>,
                              Fetch (Name objectAttrs) #
                                map (logElement (ParseFloat env) (Name objectAttrs)) reduced))))))"

text \<open>
  \<open>GetReports\<close> starts one goroutine per object and waits for all of them. The model
  runs them one after the other in the order of the listing; a panic in a goroutine
  ends the process and so the run.
\<close>

fun getReportFiles ::
  "gcp_env \<Rightarrow> ObjectAttrs list \<Rightarrow> GCPBilling \<Rightarrow> outcome \<times> GCPBilling \<times> event list" where
  "getReportFiles env [] g = (Success, g, [])"
| "getReportFiles env (attr # rest) g =
     (let (o1, g1, ev1) = getReportFile env attr g
      in if o1 \<noteq> Success then (o1, g1, ev1)
         else (let (o2, g2, ev2) = getReportFiles env rest g1 in (o2, g2, ev1 @ ev2)))"

text \<open>
  The loop over the two candidate prefixes: the first prefix whose listing yields an
  object, with that object, the rest of the listing and whether the listing fails later.
\<close>

datatype found = ListFailed | NothingFound | Found string ObjectAttrs "ObjectAttrs list" bool

fun findReports :: "gcp_env \<Rightarrow> string \<Rightarrow> string list \<Rightarrow> found \<times> event list" where
  "findReports env bucket [] = (NothingFound, [])"
| "findReports env bucket (prefix # rest) =
     (let ev = Log Debug ''looking for reports in bucket with prefix'' [S bucket, S prefix]
      in case Objects env bucket prefix of
           ([], False) \<Rightarrow> (let (r, evs) = findReports env bucket rest in (r, ev # evs))
         | ([], True) \<Rightarrow> (ListFailed, [ev])
         | (attr # others, fails) \<Rightarrow> (Found prefix attr others fails, [ev]))"

definition GetReports :: "gcp_env \<Rightarrow> GCPBilling \<Rightarrow> outcome \<times> GCPBilling \<times> event list" where
  "GetReports env g =
     (if \<not> NewClient_ok env then (Failure ClientError, g, [])
      else (case findReports env (BucketName g) (filterLastTwoMonths (ReportPrefix g) (clock_Now env)) of
          (ListFailed, evs) \<Rightarrow> (Failure ListError, g, evs)
        | (NothingFound, evs) \<Rightarrow>
            (Success, g,
             evs @ [Log Warn ''No reports of this or last month found in bucket with prefix''
                      [S (BucketName g), S (ReportPrefix g)]])
        | (Found prefix attr others fails, evs) \<Rightarrow>
            (let g1 = (if ReportsMonthPrefix g \<noteq> prefix
                       then g\<lparr>ReportsMonthPrefix := prefix,
                              Reports := replicate (nat ReportsPerMonth) emptyReport\<rparr>
                       else g);
                 ev1 = (if ReportsMonthPrefix g \<noteq> prefix
                        then [Log Debug ''reports prefix changed -> clear cache''
                                [S (ReportsMonthPrefix g), S prefix]]
                        else []);
                 (o2, g2, ev2) = getReportFiles env (attr # others) g1
             in if o2 \<noteq> Success then (o2, g2, evs @ ev1 @ ev2)
                else if fails then (Failure ListError, g2, evs @ ev1 @ ev2)
                else (Success, g2, evs @ ev1 @ ev2))))"


section \<open>GCP: the counter reconciler and \<open>OldQuery\<close> (gcp/gcp\_billing.go)\<close>

text \<open>Reading a Go map of floats: a missing key reads as 0.\<close>

definition lookup0 :: "(string \<rightharpoonup> cost) \<Rightarrow> string \<Rightarrow> cost" where
  "lookup0 m k = (case m k of None \<Rightarrow> 0 | Some v \<Rightarrow> v)"

definition init0 :: "(string \<rightharpoonup> cost) \<Rightarrow> string \<Rightarrow> (string \<rightharpoonup> cost)" where
  "init0 m k = (case m k of None \<Rightarrow> m(k \<mapsto> 0) | Some _ \<Rightarrow> m)"

text \<open>
  The labels \<open>owner\<close> and \<open>path\<close> of an element's project (the first lines of the body of
  the loop of \<open>OldQuery\<close>); \<open>None\<close> when the walk does not return.
\<close>

definition projectLabels :: "resourcesMetadata \<Rightarrow> string \<Rightarrow> (string \<times> string) option" where
  "projectLabels r pid =
     (case projectByID r pid of
        None \<Rightarrow> Some ([], [])
      | Some metadata \<Rightarrow>
          Option.bind (path (metadataByID r) metadata) (\<lambda>p. Some (owner metadata, join ''/'' p)))"

text \<open>The rest of the body of the loop, for one element and its labels.\<close>

definition writeMetric ::
  "(string \<Rightarrow> cost option) \<Rightarrow> string \<times> string \<Rightarrow> gcpBillingElement \<Rightarrow> GCPBilling \<Rightarrow>
   outcome \<times> GCPBilling \<times> event list" where
  "writeMetric pf labels elem g =
     (let lvs = [''gcp'', Currency (Cost elem), ProjectID elem, GetServiceName elem,
                 snd labels, fst labels];
          vec = WithLabelValues (MetricMonthlyCosts g) lvs;
          key = groupByProjectIDServiceCurrency elem;
          g1 = g\<lparr>MetricMonthlyCosts := vec, metricValues := init0 (metricValues g) key\<rparr>;
          value = GetValue pf elem;
          delta = value - lookup0 (metricValues g1) key
      in if delta < 0
         then (Success, g1,
               [Log Warn ''costs are falling by'' [S (ProjectID elem), S (GetServiceName elem), F delta]])
         else (case CounterAddTo vec lvs delta of
             None \<Rightarrow> (Panic, g1, [])
           | Some vec' \<Rightarrow>
               (Success,
                g1\<lparr>MetricMonthlyCosts := vec', metricValues := (metricValues g1)(key \<mapsto> value)\<rparr>,
                [CounterAdd key lvs delta])))"

fun writeMetrics ::
  "(string \<Rightarrow> cost option) \<Rightarrow> gcpBillingElement list \<Rightarrow> GCPBilling \<Rightarrow>
   (outcome \<times> GCPBilling \<times> event list) option" where
  "writeMetrics pf [] g = Some (Success, g, [])"
| "writeMetrics pf (elem # rest) g =
     Option.bind (projectLabels (resourcesMetadata g) (ProjectID elem)) (\<lambda>labels.
       let (o1, g1, ev1) = writeMetric pf labels elem g
       in if o1 \<noteq> Success then Some (o1, g1, ev1)
          else Option.bind (writeMetrics pf rest g1) (\<lambda>(o2, g2, ev2). Some (o2, g2, ev1 @ ev2)))"

definition gatherCosts :: "(string \<Rightarrow> cost option) \<Rightarrow> GCPBilling \<Rightarrow> gcpBillingElement list" where
  "gatherCosts pf g =
     reduceElementsByProjectIDServiceCurrency pf (concat (map Elements (Reports g)))"

definition OldQuery :: "gcp_env \<Rightarrow> GCPBilling \<Rightarrow> (outcome \<times> GCPBilling \<times> event list) option" where
  "OldQuery env g =
     (let (o1, g1, ev1) = GetReports env g
      in if o1 \<noteq> Success then Some (o1, g1, ev1)
         else (let (o2, r2, ev2) = update env (resourcesMetadata g1);
                   g2 = g1\<lparr>resourcesMetadata := r2\<rparr>
           in if o2 = Panic then Some (Panic, g2, ev1 @ ev2)
              else (let ev2' = ev2 @ (if o2 \<noteq> Success
                                      then [Log Warn ''error updating resource metadata'' []] else [])
                in Option.bind (writeMetrics (ParseFloat env) (gatherCosts (ParseFloat env) g2) g2)
                     (\<lambda>(o3, g3, ev3). Some (o3, g3, ev1 @ ev2' @ ev3)))))"


section \<open>AWS: reports and account names (aws/aws\_billing.go)\<close>

text \<open>
  The AWS package has its own element type and its own copies of the reducer and of the
  key function; their names carry the suffix \<open>_aws\<close> (fields: \<open>A\<close>) here.
\<close>

record awsBillingElement =
  ProjectNameA :: string
  ProjectIDA :: string
  ServiceNameA :: string
  Costs :: cost
  CurrencyA :: string

definition groupByProjectIDServiceCurrency_aws :: "awsBillingElement \<Rightarrow> string" where
  "groupByProjectIDServiceCurrency_aws e = ProjectIDA e @ ''-'' @ ServiceNameA e @ ''-'' @ CurrencyA e"

fun reduceLoop_aws ::
  "(awsBillingElement \<Rightarrow> string) \<Rightarrow> awsBillingElement list \<Rightarrow> (string \<rightharpoonup> nat) \<Rightarrow>
   awsBillingElement list \<Rightarrow> awsBillingElement list" where
  "reduceLoop_aws fnKey [] keyMap elementsOut = elementsOut"
| "reduceLoop_aws fnKey (elem # rest) keyMap elementsOut =
     (let key = fnKey elem
      in case keyMap key of
           None \<Rightarrow> reduceLoop_aws fnKey rest (keyMap(key \<mapsto> length elementsOut)) (elementsOut @ [elem])
         | Some i \<Rightarrow>
             reduceLoop_aws fnKey rest keyMap
               (elementsOut[i := (elementsOut ! i)\<lparr>Costs := Costs (elementsOut ! i) + Costs elem\<rparr>]))"

definition reduceElementsByFunc_aws ::
  "awsBillingElement list \<Rightarrow> (awsBillingElement \<Rightarrow> string) \<Rightarrow> awsBillingElement list" where
  "reduceElementsByFunc_aws elementsIn fnKey = reduceLoop_aws fnKey elementsIn Map.empty []"

text \<open>
  A report body as the CSV reader delivers it: the records it yields, whether it then
  fails instead of reaching the end of the file, and whether closing the body fails.
\<close>

record csvBody =
  records :: "string list list"
  readFails :: bool
  closeFails :: bool

text \<open>Indexing a record; \<open>None\<close> is Go's index-out-of-range panic.\<close>

definition field :: "string list \<Rightarrow> int \<Rightarrow> string option" where
  "field record i = (if 0 \<le> i \<and> nat i < length record then Some (record ! nat i) else None)"

text \<open>\<open>for i, field := range record { pos[field] = i }\<close>; a missing key of \<open>pos\<close> reads as 0.\<close>

fun setPositions :: "(string \<Rightarrow> int) \<Rightarrow> string list \<Rightarrow> int \<Rightarrow> (string \<Rightarrow> int)" where
  "setPositions pos [] i = pos"
| "setPositions pos (f # fs) i = setPositions (pos(f := i)) fs (i + 1)"

fun readRecords ::
  "(string \<Rightarrow> cost option) \<Rightarrow> string list list \<Rightarrow> (string \<Rightarrow> int) \<Rightarrow> awsBillingElement list \<Rightarrow>
   outcome \<times> awsBillingElement list \<times> event list" where
  "readRecords pf [] pos elems = (Success, elems, [])"
| "readRecords pf (record # rest) pos elems =
     (if pos ''RecordType'' = - 1 then readRecords pf rest (setPositions pos record 0) elems
      else (case field record (pos ''RecordType'') of
          None \<Rightarrow> (Panic, elems, [])
        | Some recordType \<Rightarrow>
            if recordType \<noteq> ''LinkedLineItem'' then readRecords pf rest pos elems
            else (case field record (pos ''TotalCost'') of
                None \<Rightarrow> (Panic, elems, [])
              | Some totalCost \<Rightarrow>
                  (case pf totalCost of
                     None \<Rightarrow>
                       (let (o1, elems1, ev1) = readRecords pf rest pos elems
                        in (o1, elems1, Log Warn ''Couldn't parse consts float'' [] # ev1))
                   | Some costs \<Rightarrow>
                       (case (field record (pos ''LinkedAccountId''), field record (pos ''ProductCode''),
                              field record (pos ''CurrencyCode'')) of
                          (Some accountId, Some productCode, Some currencyCode) \<Rightarrow>
                            readRecords pf rest pos
                              (elems @ [\<lparr>ProjectNameA = [], ProjectIDA = accountId,
                                         ServiceNameA = productCode, Costs = costs,
                                         CurrencyA = currencyCode\<rparr>])
                        | _ \<Rightarrow> (Panic, elems, []))))))"

definition readCSV ::
  "(string \<Rightarrow> cost option) \<Rightarrow> csvBody \<Rightarrow> outcome \<times> awsBillingElement list \<times> event list" where
  "readCSV pf input =
     (let (o1, elems, ev1) = readRecords pf (records input) ((\<lambda>_. 0)(''RecordType'' := - 1)) []
      in if o1 \<noteq> Success then (o1, [], ev1)
         else if readFails input then (Failure CSVError, [], ev1)
         else (Success, reduceElementsByFunc_aws elems groupByProjectIDServiceCurrency_aws, ev1))"

record s3Object =
  Key :: string
  ETag :: string

text \<open>
  The state of an \<open>AWSBilling\<close>. The map of the API's account names is nil (\<open>None\<close>)
  until the first successful listing. \<open>clockReads\<close> and \<open>apiCalls\<close> are not in the
  source: they count the readings of the clock and the calls of
  \<open>getAccountNameByIDAPI\<close> so far, so that the environment can answer each call
  differently.
\<close>

record AWSBilling =
  BucketNameA :: string
  Region :: string
  accountNameByIDOverride :: "string \<rightharpoonup> string"
  accountNameByIDAPI :: "(string \<rightharpoonup> string) option"
  accountNameByIDAPILastUpdate :: int
  rootAccountID :: string
  ReportHash :: string
  MetricMonthlyCostsA :: CounterVec
  metricValuesA :: "string \<rightharpoonup> cost"
  clockReads :: nat
  apiCalls :: nat

text \<open>
  The environment: the account STS reports (\<open>None\<close>: the call fails), the listing of a
  bucket under a prefix, the body of an object, the clock's readings, and for each call
  of \<open>getAccountNameByIDAPI\<close> the accounts of the pages that arrive and whether the
  listing fails.
\<close>

record aws_env = lib_env +
  GetCallerIdentity :: "string option"
  ListObjects :: "string \<Rightarrow> string \<Rightarrow> s3Object list option"
  GetObject :: "string \<Rightarrow> string \<Rightarrow> csvBody option"
  Now :: "nat \<Rightarrow> int"
  ListAccounts :: "nat \<Rightarrow> (string \<times> string) list \<times> bool"

definition getAccountNameByIDAPI :: "aws_env \<Rightarrow> nat \<Rightarrow> (string \<rightharpoonup> string) option" where
  "getAccountNameByIDAPI env n =
     (if snd (ListAccounts env n) then None
      else Some (foldl (\<lambda>accountMap (i, name). accountMap(i \<mapsto> name)) Map.empty (fst (ListAccounts env n))))"

definition updateCache :: "aws_env \<Rightarrow> AWSBilling \<Rightarrow> AWSBilling \<times> event list" where
  "updateCache env a =
     (let (stale, a1) =
            (case accountNameByIDAPI a of
               None \<Rightarrow> (True, a)
             | Some _ \<Rightarrow> (accountNameByIDAPILastUpdate a < Now env (clockReads a) - Hour,
                          a\<lparr>clockReads := Suc (clockReads a)\<rparr>))
      in if \<not> stale then (a1, [])
         else (case getAccountNameByIDAPI env (apiCalls a1) of
             None \<Rightarrow> (a1\<lparr>apiCalls := Suc (apiCalls a1)\<rparr>,
                       [Log Warn ''couldn't retrieve list of accounts'' []])
           | Some m \<Rightarrow> (a1\<lparr>apiCalls := Suc (apiCalls a1), accountNameByIDAPI := Some m,
                            accountNameByIDAPILastUpdate := Now env (clockReads a1),
                            clockReads := Suc (clockReads a1)\<rparr>, [])))"

definition AccountNameByID :: "aws_env \<Rightarrow> string \<Rightarrow> AWSBilling \<Rightarrow> string \<times> AWSBilling \<times> event list" where
  "AccountNameByID env i a =
     (case accountNameByIDOverride a i of
        Some val \<Rightarrow> (val, a, [])
      | None \<Rightarrow>
          (let (a1, ev) = updateCache env a
           in case Option.bind (accountNameByIDAPI a1) (\<lambda>m. m i) of
                Some val \<Rightarrow> (val, a1, ev)
              | None \<Rightarrow> (''unknown-'' @ i, a1, ev)))"

definition RootAccountID :: "aws_env \<Rightarrow> AWSBilling \<Rightarrow> string \<times> event list" where
  "RootAccountID env a =
     (if rootAccountID a \<noteq> [] then (rootAccountID a, [])
      else (case GetCallerIdentity env of
          None \<Rightarrow> ([], [Log Warn ''Error detecting account ID'' []])
        | Some account \<Rightarrow> (account, [])))"

text \<open>\<open>strings.Compare\<close>: the order of the bytes.\<close>

fun Compare :: "string \<Rightarrow> string \<Rightarrow> int" where
  "Compare [] [] = 0"
| "Compare [] (y # ys) = - 1"
| "Compare (x # xs) [] = 1"
| "Compare (x # xs) (y # ys) =
     (if (of_char x :: nat) < of_char y then - 1
      else if (of_char y :: nat) < of_char x then 1
      else Compare xs ys)"

text \<open>
  The loop that selects the greatest key. Its debug line slices the key as
  \<open>key[len(prefix):len(key)-4]\<close>, which panics on a key shorter than the prefix and
  four more bytes.
\<close>

fun selectObject ::
  "string \<Rightarrow> s3Object list \<Rightarrow> s3Object option \<Rightarrow> outcome \<times> s3Object option \<times> event list" where
  "selectObject prefix [] billingObject = (Success, billingObject, [])"
| "selectObject prefix (object # rest) billingObject =
     (let key = Key object
      in if length key < length prefix + 4 then (Panic, billingObject, [])
         else (let ev = Log Debug ''found report'' [S key, S (take (length key - 4 - length prefix) (drop (length prefix) key))];
                   billingObject' =
                     (case billingObject of
                        None \<Rightarrow> Some object
                      | Some b \<Rightarrow> if Compare key (Key b) > 0 then Some object else billingObject);
                   (o1, r, ev1) = selectObject prefix rest billingObject'
               in (o1, r, ev # ev1)))"

text \<open>The body of the loop of \<open>Query\<close> over the billing elements, and the loop.\<close>

definition writeMetric_aws ::
  "aws_env \<Rightarrow> awsBillingElement \<Rightarrow> AWSBilling \<Rightarrow> outcome \<times> AWSBilling \<times> event list" where
  "writeMetric_aws env elem a =
     (let (projectID, a1, ev1) = AccountNameByID env (ProjectIDA elem) a;
          elem' = elem\<lparr>ProjectNameA := projectID\<rparr>;
          lvs = [''aws'', CurrencyA elem', projectID, ServiceNameA elem'];
          vec = WithLabelValues (MetricMonthlyCostsA a1) lvs;
          key = groupByProjectIDServiceCurrency_aws elem';
          a2 = a1\<lparr>MetricMonthlyCostsA := vec, metricValuesA := init0 (metricValuesA a1) key\<rparr>;
          value = Costs elem'
      in case CounterAddTo vec lvs (value - lookup0 (metricValuesA a2) key) of
           None \<Rightarrow> (Panic, a2, ev1)
         | Some vec' \<Rightarrow>
             (Success,
              a2\<lparr>MetricMonthlyCostsA := vec', metricValuesA := (metricValuesA a2)(key \<mapsto> value)\<rparr>,
              ev1 @ [CounterAdd key lvs (value - lookup0 (metricValuesA a2) key),
                     Log Debug ''%+#v'' [S (ProjectIDA elem')]]))"

fun writeMetrics_aws ::
  "aws_env \<Rightarrow> awsBillingElement list \<Rightarrow> AWSBilling \<Rightarrow> outcome \<times> AWSBilling \<times> event list" where
  "writeMetrics_aws env [] a = (Success, a, [])"
| "writeMetrics_aws env (elem # rest) a =
     (let (o1, a1, ev1) = writeMetric_aws env elem a
      in if o1 \<noteq> Success then (o1, a1, ev1)
         else (let (o2, a2, ev2) = writeMetrics_aws env rest a1 in (o2, a2, ev1 @ ev2)))"

definition Query :: "aws_env \<Rightarrow> AWSBilling \<Rightarrow> outcome \<times> AWSBilling \<times> event list" where
  "Query env a =
     (let (root, ev0) = RootAccountID env a;
          prefix = root @ ''-aws-billing-csv-''
      in case ListObjects env (BucketNameA a) prefix of
           None \<Rightarrow> (Failure ListError, a, ev0)
         | Some contents \<Rightarrow>
             (let (o1, billingObject, ev1) = selectObject prefix contents None
              in if o1 \<noteq> Success then (o1, a, ev0 @ ev1)
                 else (case billingObject of
                     None \<Rightarrow> (Failure NoReportError, a, ev0 @ ev1 @ snd (RootAccountID env a))
                   | Some obj \<Rightarrow>
                       (let ev2 = ev0 @ ev1 @ [Log Debug ''use report'' [S (Key obj), S (ETag obj)]]
                        in if ReportHash a = ETag obj
                           then (Success, a, ev2 @ [Log Debug ''report has already been parsed'' [S (Key obj)]])
                           else (case GetObject env (BucketNameA a) (Key obj) of
                               None \<Rightarrow> (Failure DownloadError, a, ev2)
                             | Some body \<Rightarrow>
                                 (let (o3, billingElements, ev3) = readCSV (ParseFloat env) body
                                  in if o3 \<noteq> Success then (o3, a, ev2 @ [Fetch (Key obj)] @ ev3)
                                     else if closeFails body
                                     then (Failure CloseError, a, ev2 @ [Fetch (Key obj)] @ ev3)
                                     else (let (o4, a4, ev4) = writeMetrics_aws env billingElements a
                                       in if o4 \<noteq> Success
                                          then (o4, a4, ev2 @ [Fetch (Key obj)] @ ev3 @ ev4)
                                          else (Success, a4\<lparr>ReportHash := ETag obj\<rparr>,
                                                ev2 @ [Fetch (Key obj)] @ ev3 @ ev4))))))))"


section \<open>AWS: accounts of an organization (the later version of the AWS package)\<close>

text \<open>
  The later version of the AWS package resolves an account to a name, an owner and a
  path in the organization. Names that the earlier version also has carry the suffix
  \<open>_org\<close> here.
\<close>

datatype AccountType = AccountTypeProject | AccountTypeOrganizationUnit | AccountTypeOrganization

record Account =
  ID :: string
  NameA :: string
  Owner :: string
  Parent :: string
  Path :: string
  Type :: AccountType

text \<open>
  The organizations API during one refresh: the parents of a child (\<open>None\<close>: the call
  fails), the master account's e-mail address of the organization, the id and name of
  an organizational unit, the accounts of the pages that arrive and whether the
  listing fails, the tags of an account likewise, whether a session can be created,
  and the two readings of the clock.
\<close>

record org_env =
  ListParents :: "string \<Rightarrow> string list option"
  DescribeOrganization :: "string option"
  DescribeOrganizationalUnit :: "string \<Rightarrow> (string \<times> string) option"
  ListAccountsPages :: "(string \<times> string) list \<times> bool"
  ListTagsForResource :: "string \<Rightarrow> (string \<times> string) list \<times> bool"
  awsSession_ok :: bool
  Now1 :: int
  Now2 :: int

text \<open>
  \<open>getAccountPath\<close> works on a pointer to an account and on the map of the accounts
  known so far, whose values are pointers too. When the account is one of the map
  (\<open>loc\<close> is its key), the assignment to \<open>ac.Parent\<close> changes the map's account.
  The first part of the function: an early return, or the account with its parent.
\<close>

definition resolveParent ::
  "org_env \<Rightarrow> string option \<Rightarrow> Account \<Rightarrow> (string \<rightharpoonup> Account) \<Rightarrow>
   (outcome \<times> string list) + (Account \<times> (string \<rightharpoonup> Account))" where
  "resolveParent env loc ac accountMap =
     (if Parent ac \<noteq> [] then Inr (ac, accountMap)
      else (case ListParents env (ID ac) of
          None \<Rightarrow> Inl (Failure ListParentsError, [])
        | Some parents \<Rightarrow>
            if length parents = 0 then Inl (Success, [])
            else if length parents \<noteq> 1 then Inl (Failure SingleParentError, [])
            else (let ac1 = ac\<lparr>Parent := hd parents\<rparr>
                  in Inr (ac1, (case loc of None \<Rightarrow> accountMap | Some k \<Rightarrow> accountMap(k \<mapsto> ac1))))))"

text \<open>
  The second part: the parent from the map, or a new one from the API, with the key
  it has in the map. \<open>strings.Split(email, "@")[1]\<close> panics on an address without \<open>@\<close>.
\<close>

definition findParent ::
  "org_env \<Rightarrow> string \<Rightarrow> (string \<rightharpoonup> Account) \<Rightarrow>
   outcome + (Account \<times> string \<times> (string \<rightharpoonup> Account))" where
  "findParent env pid accountMap =
     (case accountMap pid of
        Some parentAc \<Rightarrow> Inr (parentAc, pid, accountMap)
      | None \<Rightarrow>
          (let parentAc = \<lparr>ID = pid, NameA = [], Owner = [], Parent = [], Path = [],
                         Type = AccountTypeProject\<rparr>
           in if HasPrefix pid ''r-'' then
                (case DescribeOrganization env of
                   None \<Rightarrow> Inl (Failure DescribeError)
                 | Some email \<Rightarrow>
                     (let parts = split_on (CHR ''@'') email
                      in if length parts < 2 then Inl Panic
                         else (let parentAc' = parentAc\<lparr>Type := AccountTypeOrganization, NameA := parts ! 1\<rparr>
                               in Inr (parentAc', pid, accountMap(pid \<mapsto> parentAc')))))
              else if HasPrefix pid ''ou-'' then
                (case DescribeOrganizationalUnit env pid of
                   None \<Rightarrow> Inl (Failure DescribeError)
                 | Some (ouId, ouName) \<Rightarrow>
                     (let parentAc' = parentAc\<lparr>Type := AccountTypeOrganizationUnit, ID := ouId, NameA := ouName\<rparr>
                      in Inr (parentAc', ouId, accountMap(ouId \<mapsto> parentAc'))))
              else Inl (Failure UnknownParentError)))"

text \<open>
  The walk: outcome, path, the account as the call leaves it, and the map as the call
  leaves it. The source recurses on the parent without a bound or a visited set;
  \<open>None\<close> is "does not return".
\<close>

partial_function (option) getAccountPath ::
  "org_env \<Rightarrow> string option \<Rightarrow> Account \<Rightarrow> (string \<rightharpoonup> Account) \<Rightarrow>
   (outcome \<times> string list \<times> Account \<times> (string \<rightharpoonup> Account)) option" where
  "getAccountPath env loc ac accountMap =
     (if Type ac = AccountTypeOrganization then Some (Success, [], ac, accountMap)
      else (case resolveParent env loc ac accountMap of
          Inl (out, p) \<Rightarrow> Some (out, p, ac, accountMap)
        | Inr (ac1, accountMap1) \<Rightarrow>
            (case findParent env (Parent ac1) accountMap1 of
               Inl out \<Rightarrow> Some (out, [], ac1, accountMap1)
             | Inr (parentAc, k, accountMap2) \<Rightarrow>
                 Option.bind (getAccountPath env (Some k) parentAc accountMap2)
                   (\<lambda>(out, result, _, accountMap3).
                      Some (if out \<noteq> Success then (out, [], ac1, accountMap3)
                            else (Success, result @ [NameA parentAc], ac1, accountMap3))))))"

text \<open>The part of the state of the later \<open>AWSBilling\<close> that account resolution uses.\<close>

record AWSDirectory =
  OwnerTag :: string
  ProjectIDTag :: string
  accountNameByIDOverride_org :: "string \<rightharpoonup> string"
  accountNameByIDAPI_org :: "(string \<rightharpoonup> Account) option"
  accountNameByIDAPILastUpdate_org :: int

fun applyTags :: "AWSDirectory \<Rightarrow> Account \<Rightarrow> (string \<times> string) list \<Rightarrow> Account" where
  "applyTags d ac [] = ac"
| "applyTags d ac ((k, v) # tags) =
     (let ac1 = (if k = ProjectIDTag d then ac\<lparr>NameA := v\<rparr> else ac);
          ac2 = (if k = OwnerTag d then ac1\<lparr>Owner := v\<rparr> else ac1)
      in applyTags d ac2 tags)"

text \<open>The body of the loop over the listed accounts, and the loop.\<close>

definition refreshAccount ::
  "org_env \<Rightarrow> AWSDirectory \<Rightarrow> string \<times> string \<Rightarrow> (string \<rightharpoonup> Account) \<Rightarrow>
   (outcome \<times> (string \<rightharpoonup> Account) \<times> event list) option" where
  "refreshAccount env d account accountMap =
     (let ac = \<lparr>ID = fst account, NameA = snd account, Owner = [], Parent = [], Path = [],
                Type = AccountTypeProject\<rparr>;
          ac1 = applyTags d ac (fst (ListTagsForResource env (fst account)));
          ev1 = (if snd (ListTagsForResource env (fst account))
                 then [Log Warn ''error listing tags for project'' [S (ID ac)]] else [])
      in Option.bind (getAccountPath env None ac1 accountMap)
           (\<lambda>(out, p, ac2, accountMap2).
              if out = Panic then Some (Panic, accountMap2, ev1)
              else if out \<noteq> Success
              then Some (Success, accountMap2(ID ac2 \<mapsto> ac2),
                         ev1 @ [Log Warn ''error building account path for project'' [S (ID ac2)]])
              else Some (Success, accountMap2(ID ac2 \<mapsto> ac2\<lparr>Path := join ''/'' p\<rparr>), ev1)))"

fun refreshAccounts ::
  "org_env \<Rightarrow> AWSDirectory \<Rightarrow> (string \<times> string) list \<Rightarrow> (string \<rightharpoonup> Account) \<Rightarrow>
   (outcome \<times> (string \<rightharpoonup> Account) \<times> event list) option" where
  "refreshAccounts env d [] accountMap = Some (Success, accountMap, [])"
| "refreshAccounts env d (account # rest) accountMap =
     Option.bind (refreshAccount env d account accountMap)
       (\<lambda>(o1, accountMap1, ev1).
          if o1 \<noteq> Success then Some (o1, accountMap1, ev1)
          else Option.bind (refreshAccounts env d rest accountMap1)
                 (\<lambda>(o2, accountMap2, ev2). Some (o2, accountMap2, ev1 @ ev2)))"





section \<open>Example states and environments\<close>

definition example_aws_env :: aws_env where
  "example_aws_env =
     \<lparr>ParseFloat = (\<lambda>s. if s = ''80'' then Some 80 else if s = ''100'' then Some 100 else None),
      GetCallerIdentity = Some ''123456789012'',
      ListObjects = (\<lambda>bucket prefix. Some [\<lparr>Key = prefix @ ''2017-01.csv'', ETag = ''e1''\<rparr>]),
      GetObject = (\<lambda>bucket key. Some \<lparr>records =
          [[''RecordType'', ''LinkedAccountId'', ''ProductCode'', ''TotalCost'', ''CurrencyCode''],
           [''LinkedLineItem'', ''111'', ''S3'', ''80'', ''USD'']], readFails = False, closeFails = False\<rparr>),
      Now = (\<lambda>n. 0),
      ListAccounts = (\<lambda>n. ([(''111'', ''legacy-name'')], False))\<rparr>"

definition example_aws :: AWSBilling where
  "example_aws =
     \<lparr>BucketNameA = ''billing'', Region = ''eu-west-1'',
      accountNameByIDOverride = [''111'' \<mapsto> ''acme-dev''],
      accountNameByIDAPI = None, accountNameByIDAPILastUpdate = 0,
      rootAccountID = ''123456789012'', ReportHash = [],
      MetricMonthlyCostsA = Map.empty, metricValuesA = Map.empty,
      clockReads = 0, apiCalls = 0\<rparr>"




definition example_element :: gcpBillingElement where
  "example_element =
     \<lparr>ProjectName = ''demo'', ProjectID = ''demo-1'', ServiceName = [],
      Measurements = [\<lparr>Unit_m = ''seconds'', Sum_m = ''60'',
                       MeasurementID = ''com.google.cloud/services/compute-engine/VmimageN1Standard''\<rparr>],
      Cost = \<lparr>Amount = [], Currency = ''USD'', CreditID = [], Value = 80\<rparr>, Credits = []\<rparr>"

definition example_gcp_env :: gcp_env where
  "example_gcp_env =
     \<lparr>ParseFloat = (\<lambda>s. None),
      md_Now = 0, md_Now_end = 0, crmv1_ok = True, crmv2_ok = True,
      Projects = ([], False), Folders = ([], False), Organizations = ([], False),
      clock_Now = \<lparr>year = 2017, month = 1, day = 2\<rparr>, NewClient_ok = True,
      Objects = (\<lambda>bucket prefix.
         if prefix = ''prefix-2017-01-''
         then ([\<lparr>Name = ''prefix-2017-01-02.json'', MD5 = Some ''h1''\<rparr>], False) else ([], False)),
      NewReader_ok = (\<lambda>name. True),
      Decode = (\<lambda>name old. ([example_element], True))\<rparr>"

definition example_metadata :: resourcesMetadata where
  "example_metadata =
     \<lparr>metadataByProjectID = Map.empty, metadataByID = Map.empty, ownerLabel = ''owner'',
      costCentreLabel = ''cost-centre'', lastUpdate = 0\<rparr>"

definition example_gcp :: GCPBilling where
  "example_gcp =
     \<lparr>BucketName = ''billing'', ReportPrefix = ''prefix'',
      Reports = replicate 32 emptyReport, ReportsMonthPrefix = ''prefix-2017-01-'',
      MetricMonthlyCosts = Map.empty, metricValues = Map.empty,
      resourcesMetadata = example_metadata\<rparr>"

text \<open>The objects a list of events downloads.\<close>

fun fetches :: "event list \<Rightarrow> string list" where
  "fetches [] = []"
| "fetches (Fetch n # evs) = n # fetches evs"
| "fetches (_ # evs) = fetches evs"

text \<open>An AWS report whose body cannot be read to its end.\<close>

definition failing_aws_env :: aws_env where
  "failing_aws_env =
     example_aws_env\<lparr>GetObject := (\<lambda>bucket key. Some \<lparr>records =
          [[''RecordType'', ''LinkedAccountId'', ''ProductCode'', ''TotalCost'', ''CurrencyCode''],
           [''LinkedLineItem'', ''111'', ''S3'', ''80'', ''USD'']], readFails = True, closeFails = False\<rparr>)\<rparr>"

text \<open>A GCP listing that fails after its first object.\<close>

definition failing_gcp_env :: gcp_env where
  "failing_gcp_env =
     example_gcp_env\<lparr>Objects := (\<lambda>bucket prefix.
         if prefix = ''prefix-2017-01-''
         then ([\<lparr>Name = ''prefix-2017-01-02.json'', MD5 = Some ''h1''\<rparr>], True) else ([], False))\<rparr>"

text \<open>
  An AWS state that has seen the costs 100 for S3 and 50 for EC2 of account 111,
  and a report in which S3 has fallen to 80 and EC2 has risen to 70.
\<close>

definition falling_aws :: AWSBilling where
  "falling_aws =
     example_aws\<lparr>ReportHash := ''e0'',
       MetricMonthlyCostsA := [[''aws'', ''USD'', ''acme-dev'', ''S3''] \<mapsto> 100,
                               [''aws'', ''USD'', ''acme-dev'', ''EC2''] \<mapsto> 50],
       metricValuesA := [''111-S3-USD'' \<mapsto> 100, ''111-EC2-USD'' \<mapsto> 50]\<rparr>"

definition falling_aws_env :: aws_env where
  "falling_aws_env =
     example_aws_env\<lparr>
       ParseFloat := (\<lambda>s. if s = ''80'' then Some 80 else if s = ''70'' then Some 70 else None),
       GetObject := (\<lambda>bucket key. Some \<lparr>records =
          [[''RecordType'', ''LinkedAccountId'', ''ProductCode'', ''TotalCost'', ''CurrencyCode''],
           [''LinkedLineItem'', ''111'', ''S3'', ''80'', ''USD''],
           [''LinkedLineItem'', ''111'', ''EC2'', ''70'', ''USD'']], readFails = False, closeFails = False\<rparr>)\<rparr>"

section \<open>Sequences of reconciliation passes\<close>







text \<open>
  The cache slot \<open>getReportFile\<close> derives from an object's name (its first lines):
  \<open>None\<close> when the name is too short or its two sequence characters are not a number.
\<close>

definition slotOf :: "ObjectAttrs \<Rightarrow> int option" where
  "slotOf attr = (if length (Name attr) < 8 then None
                  else map_option (\<lambda>i. i - 1) (Atoi (take 2 (drop (length (Name attr) - 7) (Name attr)))))"

text \<open>A listing of two objects whose names give no sequence number, and an empty bucket.\<close>

definition short_name :: ObjectAttrs where
  "short_name = \<lparr>Name = ''x.json'', MD5 = Some ''h2''\<rparr>"

definition no_number :: ObjectAttrs where
  "no_number = \<lparr>Name = ''prefix-2017-01-xx.json'', MD5 = Some ''h3''\<rparr>"

definition bad_keys_gcp_env :: gcp_env where
  "bad_keys_gcp_env =
     example_gcp_env\<lparr>Objects := (\<lambda>bucket prefix.
         if prefix = ''prefix-2017-01-'' then ([short_name, no_number], False) else ([], False))\<rparr>"

definition empty_gcp_env :: gcp_env where
  "empty_gcp_env = example_gcp_env\<lparr>Objects := (\<lambda>bucket prefix. ([], False))\<rparr>"

section \<open>Parent chains\<close>

text \<open>
  The chain of parent pointers that starts at an entry ends: at an entry without a
  parent (a root), at a pointer to an entry the map does not have, or after a step to a
  parent whose chain ends.
\<close>

inductive walkEnds :: "(string \<rightharpoonup> resourceMetadata) \<Rightarrow> resourceMetadata \<Rightarrow> bool"
  for byID :: "string \<rightharpoonup> resourceMetadata" where
  atRoot: "parent e = [] \<Longrightarrow> walkEnds byID e"
| atMissing: "parent e \<noteq> [] \<Longrightarrow> byID (parent e) = None \<Longrightarrow> walkEnds byID e"
| atParent: "parent e \<noteq> [] \<Longrightarrow> byID (parent e) = Some p \<Longrightarrow> walkEnds byID p \<Longrightarrow> walkEnds byID e"

code_pred walkEnds .










text \<open>The GCP state after a first pass has parsed the report of the example.\<close>

definition seen_gcp :: GCPBilling where
  "seen_gcp =
     example_gcp\<lparr>
       Reports := (replicate 32 emptyReport)
         [1 := \<lparr>Elements = [\<lparr>ProjectName = ''demo'', ProjectID = ''demo-1'', ServiceName = ''compute-engine'',
                               Measurements = [],
                               Cost = \<lparr>Amount = [], Currency = ''USD'', CreditID = [], Value = 80\<rparr>,
                               Credits = []\<rparr>],
                 Hash = Some ''h1''\<rparr>],
       MetricMonthlyCosts := [[''gcp'', ''USD'', ''demo-1'', ''compute-engine'', [], []] \<mapsto> 80],
       metricValues := [''demo-1-compute-engine-USD'' \<mapsto> 80]\<rparr>"












section \<open>Properties\<close>

subsection \<open>Candidate prefixes\<close>

lemma filterLastTwoMonths_2017_01:
  "filterLastTwoMonths ''prefix'' \<lparr>year = 2017, month = 1, day = 2\<rparr> = [''prefix-2017-01-'', ''prefix-2016-12-'']"
  by (simp add: filterLastTwoMonths_def month_prefix_def fmt_0d_def pad0_def dec.simps digit_char_def January_def December_def)

lemma filterLastTwoMonths_2016_07:
  "filterLastTwoMonths ''prefix'' \<lparr>year = 2016, month = 7, day = 2\<rparr> = [''prefix-2016-07-'', ''prefix-2016-06-'']"
  by (simp add: filterLastTwoMonths_def month_prefix_def fmt_0d_def pad0_def dec.simps digit_char_def January_def December_def)

text \<open>
  Claim C6. For a date of the calendar (month 1 to 12), \<open>filterLastTwoMonths\<close> returns
  exactly two prefixes: first the prefix of the date's month, then the prefix of the
  month just before it, which is December of the year before when the date is in
  January. For 2017-01-02 and the report prefix "prefix" they are "prefix-2017-01-" and
  "prefix-2016-12-"; for 2016-07-02 they are "prefix-2016-07-" and "prefix-2016-06-".
\<close>

theorem filterLastTwoMonths_prefixes:
  assumes "1 \<le> month now" and "month now \<le> 12"
  shows "(\<exists>y' m'. filterLastTwoMonths p now = [month_prefix p (year now) (month now), month_prefix p y' m']
            \<and> 1 \<le> m' \<and> m' \<le> 12 \<and> 12 * y' + m' = 12 * year now + month now - 1)
         \<and> filterLastTwoMonths ''prefix'' \<lparr>year = 2017, month = 1, day = 2\<rparr> = [''prefix-2017-01-'', ''prefix-2016-12-'']
         \<and> filterLastTwoMonths ''prefix'' \<lparr>year = 2016, month = 7, day = 2\<rparr> = [''prefix-2016-07-'', ''prefix-2016-06-'']"
proof -
  have "\<exists>y' m'. filterLastTwoMonths p now = [month_prefix p (year now) (month now), month_prefix p y' m']
            \<and> 1 \<le> m' \<and> m' \<le> 12 \<and> 12 * y' + m' = 12 * year now + month now - 1"
  proof (cases "month now = 1")
    case True
    then have "filterLastTwoMonths p now = [month_prefix p (year now) (month now), month_prefix p (year now - 1) 12]"
      by (simp add: filterLastTwoMonths_def January_def December_def Let_def)
    with True show ?thesis by (intro exI[of _ "year now - 1"] exI[of _ 12]) simp
  next
    case False
    then have "filterLastTwoMonths p now = [month_prefix p (year now) (month now), month_prefix p (year now) (month now - 1)]"
      by (simp add: filterLastTwoMonths_def January_def December_def Let_def)
    with False assms show ?thesis by (intro exI[of _ "year now"] exI[of _ "month now - 1"]) simp
  qed
  then show ?thesis using filterLastTwoMonths_2017_01 filterLastTwoMonths_2016_07 by blast
qed

theorem filterLastTwoMonths_prefixes_witness:
  "1 \<le> month \<lparr>year = 2017, month = 1, day = 2\<rparr> \<and> month \<lparr>year = 2017, month = 1, day = 2\<rparr> \<le> 12 \<and>
   (\<exists>y' m'. filterLastTwoMonths ''prefix'' \<lparr>year = 2017, month = 1, day = 2\<rparr> =
       [month_prefix ''prefix'' (year \<lparr>year = 2017, month = 1, day = 2\<rparr>) (month \<lparr>year = 2017, month = 1, day = 2\<rparr>),
        month_prefix ''prefix'' y' m']
      \<and> 1 \<le> m' \<and> m' \<le> 12
      \<and> 12 * y' + m' = 12 * year \<lparr>year = 2017, month = 1, day = 2\<rparr> + month \<lparr>year = 2017, month = 1, day = 2\<rparr> - 1)"
proof -
  have h1: "1 \<le> month \<lparr>year = 2017, month = 1, day = 2\<rparr>" by simp
  have h2: "month \<lparr>year = 2017, month = 1, day = 2\<rparr> \<le> 12" by simp
  show ?thesis using filterLastTwoMonths_prefixes [OF h1 h2, of "''prefix''"] h1 h2 by blast
qed

subsection \<open>Service names\<close>

lemma split_on_not_Nil: "split_on c s \<noteq> []"
  by (induction s) (auto split: list.splits)

lemma split_on_no_sep: "p \<in> set (split_on c s) \<Longrightarrow> c \<notin> set p"
  by (induction s arbitrary: p) (auto split: list.splits if_splits)

lemma join_split_on: "join [c] (split_on c s) = s"
proof (induction s)
  case Nil then show ?case by simp
next
  case (Cons x xs)
  obtain p ps where ps: "split_on c xs = p # ps" using split_on_not_Nil by (cases "split_on c xs") auto
  with Cons show ?case by (cases ps) auto
qed

lemma split_on_append_sep: "c \<notin> set x \<Longrightarrow> split_on c (x @ c # zs) = x # split_on c zs"
  by (induction x) auto

lemma split_on_no_sep_id: "c \<notin> set x \<Longrightarrow> split_on c x = [x]"
  by (induction x) auto

lemma split_on_join: "ps \<noteq> [] \<Longrightarrow> \<forall>p \<in> set ps. c \<notin> set p \<Longrightarrow> split_on c (join [c] ps) = ps"
proof (induction ps rule: induct_list012)
  case 1 then show ?case by simp
next
  case (2 x)
  then show ?case by (simp add: split_on_no_sep_id)
next
  case (3 x y ys)
  then have IH: "split_on c (join [c] (y # ys)) = y # ys" by simp
  from 3 have "c \<notin> set x" by simp
  with IH show ?case by (simp add: split_on_append_sep)
qed

lemma length_ge_3: "3 \<le> length xs \<Longrightarrow> \<exists>a s b rest. xs = a # s # b # rest"
  by (auto simp: numeral_3_eq_3 Suc_le_length_iff)

text \<open>
  Claim C7, as amended. For an element whose \<open>ServiceName\<close> is empty: when the number of
  its measurements is not exactly one, the derived name is "misc"; when it has exactly
  one measurement and the identifier of that measurement, split on \<open>/\<close>, has at least
  three parts of which the second is "services", the derived name is the third part;
  when it has exactly one measurement of any other shape, the derived name is the whole
  measurement identifier.
\<close>

theorem GetServiceName_derivation:
  assumes "ServiceName e = []"
  shows "(length (Measurements e) \<noteq> 1 \<longrightarrow> GetServiceName e = ''misc'')
       \<and> (\<forall>m a b rest. Measurements e = [m]
             \<and> MeasurementID m = join ''/'' (a # ''services'' # b # rest)
             \<and> (\<forall>p \<in> set (a # b # rest). CHR ''/'' \<notin> set p)
            \<longrightarrow> GetServiceName e = b)
       \<and> (\<forall>m. Measurements e = [m]
             \<and> \<not> (\<exists>a b rest. MeasurementID m = join ''/'' (a # ''services'' # b # rest)
                     \<and> (\<forall>p \<in> set (a # b # rest). CHR ''/'' \<notin> set p))
            \<longrightarrow> GetServiceName e = MeasurementID m)"
proof (intro conjI allI impI)
  assume "length (Measurements e) \<noteq> 1"
  with assms show "GetServiceName e = ''misc''" by (simp add: GetServiceName_def)
next
  fix m a b rest
  assume h: "Measurements e = [m] \<and> MeasurementID m = join ''/'' (a # ''services'' # b # rest)
             \<and> (\<forall>p \<in> set (a # b # rest). CHR ''/'' \<notin> set p)"
  then have "\<forall>p \<in> set (a # ''services'' # b # rest). CHR ''/'' \<notin> set p" by simp
  then have "split_on (CHR ''/'') (join ''/'' (a # ''services'' # b # rest)) = a # ''services'' # b # rest"
    using split_on_join [of "a # ''services'' # b # rest" "CHR ''/''"] by simp
  with h assms show "GetServiceName e = b" by (simp add: GetServiceName_def)
next
  fix m
  assume h: "Measurements e = [m]
             \<and> \<not> (\<exists>a b rest. MeasurementID m = join ''/'' (a # ''services'' # b # rest)
                     \<and> (\<forall>p \<in> set (a # b # rest). CHR ''/'' \<notin> set p))"
  let ?parts = "split_on (CHR ''/'') (MeasurementID m)"
  have "\<not> (length ?parts \<ge> 3 \<and> ?parts ! 1 = ''services'')"
  proof
    assume c: "length ?parts \<ge> 3 \<and> ?parts ! 1 = ''services''"
    then obtain a s b rest where ps: "?parts = a # s # b # rest"
      using length_ge_3 [of ?parts] by blast
    with c have s: "s = ''services''" by simp
    have "\<forall>p \<in> set ?parts. CHR ''/'' \<notin> set p" using split_on_no_sep by blast
    with ps s have nosep: "\<forall>p \<in> set (a # b # rest). CHR ''/'' \<notin> set p" by simp
    have "MeasurementID m = join ''/'' ?parts" using join_split_on [of "CHR ''/''" "MeasurementID m"] by simp
    with ps s have "MeasurementID m = join ''/'' (a # ''services'' # b # rest)" by simp
    with nosep h show False by blast
  qed
  with h assms show "GetServiceName e = MeasurementID m" by (auto simp add: GetServiceName_def Let_def)
qed

theorem GetServiceName_derivation_witness:
  "GetServiceName \<lparr>ProjectName = [], ProjectID = ''p'', ServiceName = [], Measurements = [],
      Cost = \<lparr>Amount = [], Currency = ''USD'', CreditID = [], Value = 0\<rparr>, Credits = []\<rparr> = ''misc''
   \<and> GetServiceName \<lparr>ProjectName = [], ProjectID = ''p'', ServiceName = [],
      Measurements = [\<lparr>Unit_m = [], Sum_m = [], MeasurementID = ''com.google.cloud/services/compute-engine/VmimageN1Standard''\<rparr>],
      Cost = \<lparr>Amount = [], Currency = ''USD'', CreditID = [], Value = 0\<rparr>, Credits = []\<rparr> = ''compute-engine''
   \<and> GetServiceName \<lparr>ProjectName = [], ProjectID = ''p'', ServiceName = [],
      Measurements = [\<lparr>Unit_m = [], Sum_m = [], MeasurementID = ''foo''\<rparr>],
      Cost = \<lparr>Amount = [], Currency = ''USD'', CreditID = [], Value = 0\<rparr>, Credits = []\<rparr> = ''foo''"
proof (intro conjI)
  let ?c = "\<lparr>Amount = [], Currency = ''USD'', CreditID = [], Value = 0\<rparr>"
  let ?e1 = "\<lparr>ProjectName = [], ProjectID = ''p'', ServiceName = [], Measurements = [], Cost = ?c, Credits = []\<rparr>"
  show "GetServiceName ?e1 = ''misc''"
    using GetServiceName_derivation [of ?e1] by simp
next
  let ?c = "\<lparr>Amount = [], Currency = ''USD'', CreditID = [], Value = 0\<rparr>"
  let ?m = "\<lparr>Unit_m = [], Sum_m = [], MeasurementID = ''com.google.cloud/services/compute-engine/VmimageN1Standard''\<rparr>"
  let ?e2 = "\<lparr>ProjectName = [], ProjectID = ''p'', ServiceName = [], Measurements = [?m], Cost = ?c, Credits = []\<rparr>"
  have "ServiceName ?e2 = []" by simp
  from GetServiceName_derivation [OF this]
  have "Measurements ?e2 = [?m]
             \<and> MeasurementID ?m = join ''/'' (''com.google.cloud'' # ''services'' # ''compute-engine'' # [''VmimageN1Standard''])
             \<and> (\<forall>p \<in> set (''com.google.cloud'' # ''compute-engine'' # [''VmimageN1Standard'']). CHR ''/'' \<notin> set p)
            \<longrightarrow> GetServiceName ?e2 = ''compute-engine''"
    by blast
  then show "GetServiceName ?e2 = ''compute-engine''" by simp
next
  let ?c = "\<lparr>Amount = [], Currency = ''USD'', CreditID = [], Value = 0\<rparr>"
  let ?m = "\<lparr>Unit_m = [], Sum_m = [], MeasurementID = ''foo''\<rparr>"
  let ?e3 = "\<lparr>ProjectName = [], ProjectID = ''p'', ServiceName = [], Measurements = [?m], Cost = ?c, Credits = []\<rparr>"
  have no: "\<not> (\<exists>a b rest. MeasurementID ?m = join ''/'' (a # ''services'' # b # rest)
                     \<and> (\<forall>p \<in> set (a # b # rest). CHR ''/'' \<notin> set p))"
  proof
    assume "\<exists>a b rest. MeasurementID ?m = join ''/'' (a # ''services'' # b # rest)
                     \<and> (\<forall>p \<in> set (a # b # rest). CHR ''/'' \<notin> set p)"
    then obtain a b rest where j: "''foo'' = join ''/'' (a # ''services'' # b # rest)"
      and n: "\<forall>p \<in> set (a # b # rest). CHR ''/'' \<notin> set p" by auto
    from n have "\<forall>p \<in> set (a # ''services'' # b # rest). CHR ''/'' \<notin> set p" by simp
    then have "split_on (CHR ''/'') (join ''/'' (a # ''services'' # b # rest)) = a # ''services'' # b # rest"
      using split_on_join [of "a # ''services'' # b # rest" "CHR ''/''"] by simp
    with j have "split_on (CHR ''/'') ''foo'' = a # ''services'' # b # rest" by simp
    then show False by simp
  qed
  have "ServiceName ?e3 = []" by simp
  from GetServiceName_derivation [OF this]
  have "Measurements ?e3 = [?m]
             \<and> \<not> (\<exists>a b rest. MeasurementID ?m = join ''/'' (a # ''services'' # b # rest)
                     \<and> (\<forall>p \<in> set (a # b # rest). CHR ''/'' \<notin> set p))
            \<longrightarrow> GetServiceName ?e3 = MeasurementID ?m"
    by blast
  with no show "GetServiceName ?e3 = ''foo''" by simp
qed

text \<open>
  Claim C7 as stated fails: an element with an empty \<open>ServiceName\<close> and the single
  measurement identifier "foo", which has no "services" segment, is not named "misc".
\<close>

theorem GetServiceName_misc_counterexample:
  "''services'' \<notin> set (split_on (CHR ''/'') ''foo'')
   \<and> GetServiceName \<lparr>ProjectName = [], ProjectID = ''p'', ServiceName = [],
        Measurements = [\<lparr>Unit_m = [], Sum_m = [], MeasurementID = ''foo''\<rparr>],
        Cost = \<lparr>Amount = [], Currency = ''USD'', CreditID = [], Value = 0\<rparr>, Credits = []\<rparr> \<noteq> ''misc''"
  by (simp add: GetServiceName_def)

subsection \<open>What the fetcher and the reconciler leave alone\<close>

lemma deltasFor_append: "deltasFor k (xs @ ys) = deltasFor k xs @ deltasFor k ys"
  by (induction k xs rule: deltasFor.induct) auto

lemma deltasFor_logElements: "deltasFor k (map (logElement pf n) es) = []"
  by (induction es) (auto simp: logElement_def)

lemma getReportFile_frame:
  assumes "getReportFile env attr g = (out, g', ev)"
  shows "MetricMonthlyCosts g' = MetricMonthlyCosts g \<and> metricValues g' = metricValues g
         \<and> resourcesMetadata g' = resourcesMetadata g \<and> deltasFor k ev = []
         \<and> out \<noteq> Failure e"
  using assms
  by (auto simp: getReportFile_def Let_def deltasFor_logElements split: if_splits option.splits prod.splits)

lemma getReportFiles_frame:
  "getReportFiles env attrs g = (out, g', ev) \<Longrightarrow>
     MetricMonthlyCosts g' = MetricMonthlyCosts g \<and> metricValues g' = metricValues g
     \<and> resourcesMetadata g' = resourcesMetadata g \<and> deltasFor k ev = [] \<and> out \<noteq> Failure e"
proof (induction attrs arbitrary: g out g' ev)
  case Nil then show ?case by simp
next
  case (Cons a as)
  obtain o1 g1 ev1 where 1: "getReportFile env a g = (o1, g1, ev1)" by (cases "getReportFile env a g") auto
  note f1 = getReportFile_frame [OF 1, of k e]
  show ?case
  proof (cases "o1 = Success")
    case False
    with 1 Cons.prems f1 show ?thesis by simp
  next
    case True
    obtain o2 g2 ev2 where 2: "getReportFiles env as g1 = (o2, g2, ev2)" by (cases "getReportFiles env as g1") auto
    from Cons.IH [OF 2] f1 1 2 True Cons.prems show ?thesis by (auto simp: deltasFor_append)
  qed
qed

lemma findReports_events: "findReports env b ps = (r, evs) \<Longrightarrow> deltasFor k evs = []"
  by (induction ps arbitrary: r evs) (auto simp: Let_def split: prod.splits list.splits bool.splits if_splits)

lemma GetReports_frame:
  assumes "GetReports env g = (out, g', ev)"
  shows "MetricMonthlyCosts g' = MetricMonthlyCosts g \<and> metricValues g' = metricValues g
         \<and> resourcesMetadata g' = resourcesMetadata g \<and> deltasFor k ev = []"
proof (cases "NewClient_ok env")
  case False
  with assms show ?thesis by (simp add: GetReports_def)
next
  case True
  obtain r evs where fr: "findReports env (BucketName g) (filterLastTwoMonths (ReportPrefix g) (clock_Now env)) = (r, evs)"
    by (cases "findReports env (BucketName g) (filterLastTwoMonths (ReportPrefix g) (clock_Now env))") auto
  note e0 = findReports_events [OF fr, of k]
  show ?thesis
  proof (cases r)
    case ListFailed
    with assms True fr e0 show ?thesis by (auto simp: GetReports_def)
  next
    case NothingFound
    with assms True fr e0 show ?thesis by (auto simp: GetReports_def deltasFor_append)
  next
    case (Found prefix attr others fails)
    let ?g1 = "if ReportsMonthPrefix g \<noteq> prefix
               then g\<lparr>ReportsMonthPrefix := prefix, Reports := replicate (nat ReportsPerMonth) emptyReport\<rparr> else g"
    obtain o2 g2 ev2 where 2: "getReportFiles env (attr # others) ?g1 = (o2, g2, ev2)"
      by (cases "getReportFiles env (attr # others) ?g1") auto
    note f = getReportFiles_frame [OF 2, of k]
    from assms True fr Found 2 have "g' = g2"
      by (auto simp: GetReports_def Let_def split: if_splits)
    moreover from assms True fr Found 2 have "deltasFor k ev = deltasFor k evs @ deltasFor k ev2"
      by (auto simp: GetReports_def Let_def deltasFor_append split: if_splits)
    ultimately show ?thesis using f e0 by (auto split: if_splits)
  qed
qed

lemma writeMetric_no_Failure: "writeMetric pf labels elem g = (out, g', ev) \<Longrightarrow> out \<noteq> Failure e"
  by (auto simp: writeMetric_def Let_def split: option.splits if_splits)

lemma writeMetrics_no_Failure:
  "writeMetrics pf elems g = Some (out, g', ev) \<Longrightarrow> out \<noteq> Failure e"
proof (induction elems arbitrary: g out g' ev)
  case Nil then show ?case by simp
next
  case (Cons a as)
  from Cons.prems obtain labels where l: "projectLabels (resourcesMetadata g) (ProjectID a) = Some labels"
    by (auto split: bind_splits)
  obtain o1 g1 ev1 where 1: "writeMetric pf labels a g = (o1, g1, ev1)" by (cases "writeMetric pf labels a g") auto
  note n1 = writeMetric_no_Failure [OF 1, of e]
  show ?case
  proof (cases "o1 = Success")
    case False
    with Cons.prems l 1 n1 show ?thesis by simp
  next
    case True
    with Cons.prems l 1 obtain o2 g2 ev2 where 2: "writeMetrics pf as g1 = Some (o2, g2, ev2)" and "out = o2"
      by (auto split: bind_splits)
    with Cons.IH [OF 2] show ?thesis by simp
  qed
qed

lemma OldQuery_Failure_from_GetReports:
  assumes "OldQuery env g = Some (Failure e, g', ev)"
  shows "GetReports env g = (Failure e, g', ev)"
proof -
  obtain o1 g1 ev1 where 1: "GetReports env g = (o1, g1, ev1)" by (cases "GetReports env g") auto
  show ?thesis
  proof (cases "o1 = Success")
    case False
    with assms 1 show ?thesis by (simp add: OldQuery_def)
  next
    case True
    with assms 1 have False
      using writeMetrics_no_Failure [of "ParseFloat env" _ _ "Failure e" _ _ e]
      by (auto simp: OldQuery_def Let_def split: prod.splits if_splits bind_splits)
    then show ?thesis ..
  qed
qed

lemma selectObject_events: "selectObject prefix objs best = (out, r, ev) \<Longrightarrow> deltasFor k ev = []"
proof (induction objs arbitrary: best out r ev)
  case Nil then show ?case by simp
next
  case (Cons a as)
  then show ?case
    by (auto simp: Let_def split: if_splits prod.splits option.splits)
qed

lemma readRecords_events: "readRecords pf recs pos elems = (out, r, ev) \<Longrightarrow> deltasFor k ev = []"
proof (induction pf recs pos elems arbitrary: out r ev rule: readRecords.induct)
  case (1 pf pos elems) then show ?case by simp
next
  case (2 pf recd rest pos elems)
  then show ?case
    by (auto simp: Let_def split: if_splits prod.splits option.splits)
qed

lemma readCSV_events: "readCSV pf body = (out, r, ev) \<Longrightarrow> deltasFor k ev = []"
  by (auto simp: readCSV_def Let_def split: prod.splits if_splits dest: readRecords_events)

lemma RootAccountID_events: "deltasFor k (snd (RootAccountID env a)) = []"
  by (simp add: RootAccountID_def split: option.splits)

lemma writeMetric_aws_no_Failure: "writeMetric_aws env elem a = (out, a', ev) \<Longrightarrow> out \<noteq> Failure e"
  by (auto simp: writeMetric_aws_def Let_def split: option.splits prod.splits)

lemma writeMetrics_aws_no_Failure: "writeMetrics_aws env elems a = (out, a', ev) \<Longrightarrow> out \<noteq> Failure e"
proof (induction elems arbitrary: a out a' ev)
  case Nil then show ?case by simp
next
  case (Cons x xs)
  obtain o1 a1 ev1 where 1: "writeMetric_aws env x a = (o1, a1, ev1)" by (cases "writeMetric_aws env x a") auto
  note n1 = writeMetric_aws_no_Failure [OF 1, of e]
  show ?case
  proof (cases "o1 = Success")
    case False
    with Cons.prems 1 n1 show ?thesis by simp
  next
    case True
    obtain o2 a2 ev2 where 2: "writeMetrics_aws env xs a1 = (o2, a2, ev2)" by (cases "writeMetrics_aws env xs a1") auto
    with Cons.prems 1 True have "out = o2" by simp
    with Cons.IH [OF 2] show ?thesis by simp
  qed
qed

lemma Query_Failure_unchanged:
  assumes "Query env a = (Failure e, a', ev)"
  shows "a' = a \<and> deltasFor k ev = []"
proof -
  obtain root ev0 where r: "RootAccountID env a = (root, ev0)" by (cases "RootAccountID env a") auto
  then have e0: "deltasFor k ev0 = []" using RootAccountID_events [of k env a] by simp
  let ?prefix = "root @ ''-aws-billing-csv-''"
  show ?thesis
  proof (cases "ListObjects env (BucketNameA a) ?prefix")
    case None
    with assms r e0 show ?thesis by (auto simp: Query_def)
  next
    case (Some contents)
    obtain o1 bo ev1 where s: "selectObject ?prefix contents None = (o1, bo, ev1)"
      by (cases "selectObject ?prefix contents None") auto
    note e1 = selectObject_events [OF s, of k]
    show ?thesis
    proof (cases "o1 = Success")
      case False
      with assms r Some s e0 e1 show ?thesis by (auto simp: Query_def deltasFor_append)
    next
      case True
      show ?thesis
      proof (cases bo)
        case None
        with assms r Some s True e0 e1 show ?thesis by (auto simp: Query_def deltasFor_append)
      next
        case (Some obj)
        note bo = this
        show ?thesis
        proof (cases "ReportHash a = ETag obj")
          case True
          with assms r \<open>ListObjects env (BucketNameA a) ?prefix = Some contents\<close> s \<open>o1 = Success\<close> bo
          show ?thesis by (auto simp: Query_def Let_def)
        next
          case False
          note nh = this
          show ?thesis
          proof (cases "GetObject env (BucketNameA a) (Key obj)")
            case None
            with assms r \<open>ListObjects env (BucketNameA a) ?prefix = Some contents\<close> s \<open>o1 = Success\<close> bo nh e0 e1
            show ?thesis by (auto simp: Query_def Let_def deltasFor_append)
          next
            case (Some body)
            obtain o3 els ev3 where c: "readCSV (ParseFloat env) body = (o3, els, ev3)"
              by (cases "readCSV (ParseFloat env) body") auto
            note e3 = readCSV_events [OF c, of k]
            obtain o4 a4 ev4 where w: "writeMetrics_aws env els a = (o4, a4, ev4)"
              by (cases "writeMetrics_aws env els a") auto
            note n4 = writeMetrics_aws_no_Failure [OF w, of e]
            from assms r \<open>ListObjects env (BucketNameA a) ?prefix = Some contents\<close> s \<open>o1 = Success\<close> bo nh Some c w n4 e0 e1 e3
            show ?thesis by (auto simp: Query_def Let_def deltasFor_append split: if_splits)
          qed
        qed
      qed
    qed
  qed
qed

subsection \<open>Failed queries and falling costs\<close>

lemmas eval_fmt = filterLastTwoMonths_def month_prefix_def fmt_0d_def pad0_def dec.simps digit_char_def
  January_def December_def
lemmas eval_atoi = Atoi_def is_digit_def digits_val_def digit_val_def
lemmas eval_aws = Query_def RootAccountID_def readCSV_def field_def reduceElementsByFunc_aws_def
  groupByProjectIDServiceCurrency_aws_def writeMetric_aws_def AccountNameByID_def
  WithLabelValues_def CounterAddTo_def counterValue_def lookup0_def init0_def Let_def

lemmas eval_gcp = writeMetric_def projectLabels_def projectByID_def groupByProjectIDServiceCurrency_def
  GetServiceName_def GetValue_def WithLabelValues_def CounterAddTo_def counterValue_def lookup0_def
  init0_def Let_def

text \<open>
  Claim C4. A call of \<open>Query\<close> (AWS) that returns an error leaves the whole state as
  it was; a call of \<open>OldQuery\<close> (GCP) that returns an error leaves the counters and the
  stored last values as they were; neither makes a call of \<open>Add\<close>. \<open>OldQuery\<close>
  returns the error of \<open>GetReports\<close> whenever that fails.
\<close>

theorem failed_query_changes_no_counter:
  "(Query env a = (Failure e, a', ev) \<longrightarrow> a' = a \<and> deltasFor k ev = [])
   \<and> (OldQuery genv g = Some (Failure e, g', gev) \<longrightarrow>
         MetricMonthlyCosts g' = MetricMonthlyCosts g \<and> metricValues g' = metricValues g
         \<and> deltasFor k gev = [])
   \<and> (GetReports genv g = (Failure e, g', gev) \<longrightarrow> OldQuery genv g = Some (Failure e, g', gev))"
proof -
  have 1: "Query env a = (Failure e, a', ev) \<longrightarrow> a' = a \<and> deltasFor k ev = []"
    using Query_Failure_unchanged by blast
  have 2: "OldQuery genv g = Some (Failure e, g', gev) \<longrightarrow>
         MetricMonthlyCosts g' = MetricMonthlyCosts g \<and> metricValues g' = metricValues g
         \<and> deltasFor k gev = []"
  proof
    assume "OldQuery genv g = Some (Failure e, g', gev)"
    then have "GetReports genv g = (Failure e, g', gev)" by (rule OldQuery_Failure_from_GetReports)
    from GetReports_frame [OF this, of k]
    show "MetricMonthlyCosts g' = MetricMonthlyCosts g \<and> metricValues g' = metricValues g
         \<and> deltasFor k gev = []" by simp
  qed
  have 3: "GetReports genv g = (Failure e, g', gev) \<longrightarrow> OldQuery genv g = Some (Failure e, g', gev)"
    by (simp add: OldQuery_def)
  from 1 2 3 show ?thesis by blast
qed

lemma failing_aws_Query:
  "Query failing_aws_env example_aws =
     (Failure CSVError, example_aws,
      [Log Debug ''found report'' [S ''123456789012-aws-billing-csv-2017-01.csv'', S ''2017-01''],
       Log Debug ''use report'' [S ''123456789012-aws-billing-csv-2017-01.csv'', S ''e1''],
       Fetch ''123456789012-aws-billing-csv-2017-01.csv''])"
  by (simp add: failing_aws_env_def example_aws_env_def example_aws_def eval_aws)

lemma failing_gcp_GetReports:
  "\<exists>g' ev. GetReports failing_gcp_env example_gcp = (Failure ListError, g', ev)
      \<and> Hash (Reports g' ! 1) = Some ''h1''"
  by (simp add: GetReports_def failing_gcp_env_def example_gcp_env_def example_gcp_def eval_fmt
     getReportFile_def eval_atoi ReportsPerMonth_def emptyReport_def Let_def)

theorem failed_query_changes_no_counter_witness:
  "Query failing_aws_env example_aws =
     (Failure CSVError, example_aws,
      [Log Debug ''found report'' [S ''123456789012-aws-billing-csv-2017-01.csv'', S ''2017-01''],
       Log Debug ''use report'' [S ''123456789012-aws-billing-csv-2017-01.csv'', S ''e1''],
       Fetch ''123456789012-aws-billing-csv-2017-01.csv''])
   \<and> (\<exists>g' ev. GetReports failing_gcp_env example_gcp = (Failure ListError, g', ev)
         \<and> OldQuery failing_gcp_env example_gcp = Some (Failure ListError, g', ev)
         \<and> Hash (Reports g' ! 1) = Some ''h1''
         \<and> MetricMonthlyCosts g' = MetricMonthlyCosts example_gcp
         \<and> metricValues g' = metricValues example_gcp
         \<and> deltasFor ''demo-1-compute-engine-USD'' ev = [])"
proof -
  obtain g' ev where 1: "GetReports failing_gcp_env example_gcp = (Failure ListError, g', ev)"
    and 2: "Hash (Reports g' ! 1) = Some ''h1''"
    using failing_gcp_GetReports by blast
  from failed_query_changes_no_counter [of failing_aws_env example_aws CSVError example_aws _
       "''111-S3-USD''" failing_gcp_env example_gcp] failing_aws_Query
  have a: "Query failing_aws_env example_aws =
     (Failure CSVError, example_aws,
      [Log Debug ''found report'' [S ''123456789012-aws-billing-csv-2017-01.csv'', S ''2017-01''],
       Log Debug ''use report'' [S ''123456789012-aws-billing-csv-2017-01.csv'', S ''e1''],
       Fetch ''123456789012-aws-billing-csv-2017-01.csv''])" by simp
  from failed_query_changes_no_counter [of failing_aws_env example_aws ListError example_aws "[]"
       "''demo-1-compute-engine-USD''" failing_gcp_env example_gcp g' ev] 1
  have "OldQuery failing_gcp_env example_gcp = Some (Failure ListError, g', ev)
         \<and> MetricMonthlyCosts g' = MetricMonthlyCosts example_gcp
         \<and> metricValues g' = metricValues example_gcp
         \<and> deltasFor ''demo-1-compute-engine-USD'' ev = []" by simp
  with a 1 2 show ?thesis by blast
qed

text \<open>
  Claim C1 fails on the AWS path, which has no guard against a falling cost. With the
  last value 100 stored for S3 and a report that has S3 at 80 and EC2 at 70 (after 50),
  \<open>Query\<close> hands \<open>80 - 100\<close> to \<open>Counter.Add\<close>, which panics: the pass is aborted,
  the rise of EC2 is never applied and the report's hash is not recorded.
\<close>

theorem aws_falling_cost_aborts_pass:
  "Query falling_aws_env falling_aws =
     (Panic, falling_aws,
      [Log Debug ''found report'' [S ''123456789012-aws-billing-csv-2017-01.csv'', S ''2017-01''],
       Log Debug ''use report'' [S ''123456789012-aws-billing-csv-2017-01.csv'', S ''e1''],
       Fetch ''123456789012-aws-billing-csv-2017-01.csv''])
   \<and> lookup0 (metricValuesA falling_aws) ''111-EC2-USD'' = 50
   \<and> CounterAddTo (MetricMonthlyCostsA falling_aws) [''aws'', ''USD'', ''acme-dev'', ''S3'']
        (80 - lookup0 (metricValuesA falling_aws) ''111-S3-USD'') = None"
  by (simp add: falling_aws_env_def falling_aws_def example_aws_env_def example_aws_def eval_aws)

text \<open>
  On the GCP path the guard is there: an element whose cost is below the value stored
  for its key is skipped with a warning; no value stored and no counter value changes,
  and \<open>Add\<close> is not called.
\<close>

lemma writeMetric_falling:
  assumes "GetValue pf elem < lookup0 (metricValues g) (groupByProjectIDServiceCurrency elem)"
  shows "\<exists>g'. writeMetric pf labels elem g =
           (Success, g',
            [Log Warn ''costs are falling by''
               [S (ProjectID elem), S (GetServiceName elem),
                F (GetValue pf elem - lookup0 (metricValues g) (groupByProjectIDServiceCurrency elem))]])
         \<and> (\<forall>k. lookup0 (metricValues g') k = lookup0 (metricValues g) k)
         \<and> (\<forall>lvs. counterValue (MetricMonthlyCosts g') lvs = counterValue (MetricMonthlyCosts g) lvs)
         \<and> (groupByProjectIDServiceCurrency elem \<in> dom (metricValues g) \<longrightarrow> metricValues g' = metricValues g)"
proof -
  have l: "lookup0 (init0 m k) k' = lookup0 m k'" for m k k'
    by (simp add: lookup0_def init0_def split: option.splits)
  have c: "counterValue (WithLabelValues v l) l' = counterValue v l'" for v l l'
    by (simp add: counterValue_def WithLabelValues_def split: option.splits)
  have i: "k \<in> dom m \<Longrightarrow> init0 m k = m" for m :: "string \<rightharpoonup> cost" and k
    by (auto simp: init0_def split: option.splits)
  from assms show ?thesis
    by (simp add: writeMetric_def Let_def l c i)
qed

lemma gcp_regression_guard:
  "writeMetric (\<lambda>s. None) ([], []) example_element
     (example_gcp\<lparr>MetricMonthlyCosts := [[''gcp'', ''USD'', ''demo-1'', ''compute-engine'', [], []] \<mapsto> 100],
                  metricValues := [''demo-1-compute-engine-USD'' \<mapsto> 100]\<rparr>)
   = (Success,
      example_gcp\<lparr>MetricMonthlyCosts := [[''gcp'', ''USD'', ''demo-1'', ''compute-engine'', [], []] \<mapsto> 100],
                  metricValues := [''demo-1-compute-engine-USD'' \<mapsto> 100]\<rparr>,
      [Log Warn ''costs are falling by'' [S ''demo-1'', S ''compute-engine'', F (- 20)]])"
  by (simp add: example_element_def example_gcp_def eval_gcp)

text \<open>
  On the AWS path every element whose cost is below the value stored for its key makes
  the body of the loop panic.
\<close>

lemma AccountNameByID_frame:
  "AccountNameByID env i a = (n, a', ev) \<Longrightarrow>
     metricValuesA a' = metricValuesA a \<and> MetricMonthlyCostsA a' = MetricMonthlyCostsA a
     \<and> ReportHash a' = ReportHash a \<and> deltasFor k ev = [] \<and> fetches ev = []"
  by (auto simp: AccountNameByID_def updateCache_def Let_def split: option.splits prod.splits if_splits)

lemma writeMetric_aws_falling:
  assumes "Costs elem < lookup0 (metricValuesA a) (groupByProjectIDServiceCurrency_aws elem)"
  shows "fst (writeMetric_aws env elem a) = Panic"
proof -
  obtain n a1 ev1 where 1: "AccountNameByID env (ProjectIDA elem) a = (n, a1, ev1)"
    by (cases "AccountNameByID env (ProjectIDA elem) a") auto
  from AccountNameByID_frame [OF 1] have m: "metricValuesA a1 = metricValuesA a" by simp
  have l: "lookup0 (init0 m k) k' = lookup0 m k'" for m k k'
    by (simp add: lookup0_def init0_def split: option.splits)
  from assms 1 m show ?thesis
    by (simp add: writeMetric_aws_def Let_def l CounterAddTo_def groupByProjectIDServiceCurrency_aws_def)
qed

subsection \<open>Telescoping of the deltas\<close>

lemma lookup0_init0: "lookup0 (init0 m k) k' = lookup0 m k'"
  by (simp add: lookup0_def init0_def split: option.splits)

lemma lookup0_upd: "lookup0 (m(k \<mapsto> v)) k' = (if k' = k then v else lookup0 m k')"
  by (simp add: lookup0_def)

lemma writeMetric_step:
  assumes "writeMetric pf labels elem g = (out, g', ev)"
  shows "out = Success
       \<and> sum_list (deltasFor k ev) = lookup0 (metricValues g') k - lookup0 (metricValues g) k
       \<and> lookup0 (metricValues g') k =
           (if k = groupByProjectIDServiceCurrency elem \<and> lookup0 (metricValues g) k \<le> GetValue pf elem
            then GetValue pf elem else lookup0 (metricValues g) k)"
  using assms
  by (auto simp: writeMetric_def Let_def lookup0_init0 lookup0_upd CounterAddTo_def split: if_splits)

















subsection \<open>Unchanged content hashes\<close>

lemma fetches_append: "fetches (xs @ ys) = fetches xs @ fetches ys"
  by (induction xs rule: fetches.induct) auto

lemma selectObject_fetches: "selectObject prefix objs best = (out, r, ev) \<Longrightarrow> fetches ev = []"
proof (induction objs arbitrary: best out r ev)
  case Nil then show ?case by simp
next
  case (Cons a as)
  then show ?case
    by (auto simp: Let_def split: if_splits prod.splits option.splits)
qed

lemma RootAccountID_fetches: "fetches (snd (RootAccountID env a)) = []"
  by (simp add: RootAccountID_def split: option.splits)

lemma Query_cache_hit:
  assumes "ListObjects env (BucketNameA a) (fst (RootAccountID env a) @ ''-aws-billing-csv-'') = Some contents"
    and "selectObject (fst (RootAccountID env a) @ ''-aws-billing-csv-'') contents None = (Success, Some obj, ev1)"
    and "ReportHash a = ETag obj"
  shows "\<exists>ev. Query env a = (Success, a, ev) \<and> fetches ev = [] \<and> deltasFor k ev = []"
proof -
  obtain root ev0 where r: "RootAccountID env a = (root, ev0)" by (cases "RootAccountID env a") auto
  then have e0: "fetches ev0 = []" "deltasFor k ev0 = []"
    using RootAccountID_fetches [of env a] RootAccountID_events [of k env a] by simp_all
  from assms(2) r have e1: "fetches ev1 = []" "deltasFor k ev1 = []"
    using selectObject_fetches selectObject_events by blast+
  from assms r e0 e1 show ?thesis
    by (simp add: Query_def Let_def fetches_append deltasFor_append)
qed

lemma writeMetrics_aws_ReportHash:
  "writeMetrics_aws env elems a = (out, a', ev) \<Longrightarrow> ReportHash a' = ReportHash a"
proof (induction elems arbitrary: a out a' ev)
  case Nil then show ?case by simp
next
  case (Cons x xs)
  obtain n a0 ev0 where 0: "AccountNameByID env (ProjectIDA x) a = (n, a0, ev0)"
    by (cases "AccountNameByID env (ProjectIDA x) a") auto
  obtain o1 a1 ev1 where 1: "writeMetric_aws env x a = (o1, a1, ev1)" by (cases "writeMetric_aws env x a") auto
  with 0 AccountNameByID_frame [OF 0] have h1: "ReportHash a1 = ReportHash a"
    by (auto simp: writeMetric_aws_def Let_def split: option.splits)
  obtain o2 a2 ev2 where 2: "writeMetrics_aws env xs a1 = (o2, a2, ev2)" by (cases "writeMetrics_aws env xs a1") auto
  from Cons.IH [OF 2] h1 Cons.prems 1 2 show ?case by (auto split: if_splits)
qed

lemma Query_records_hash:
  assumes "Query env a = (Success, a', ev)"
  shows "\<exists>contents obj ev1.
           ListObjects env (BucketNameA a) (fst (RootAccountID env a) @ ''-aws-billing-csv-'') = Some contents
         \<and> selectObject (fst (RootAccountID env a) @ ''-aws-billing-csv-'') contents None = (Success, Some obj, ev1)
         \<and> ReportHash a' = ETag obj"
proof -
  obtain root ev0 where r: "RootAccountID env a = (root, ev0)" by (cases "RootAccountID env a") auto
  let ?prefix = "root @ ''-aws-billing-csv-''"
  from assms r obtain contents where c: "ListObjects env (BucketNameA a) ?prefix = Some contents"
    by (cases "ListObjects env (BucketNameA a) ?prefix") (auto simp: Query_def)
  obtain o1 bo ev1 where s: "selectObject ?prefix contents None = (o1, bo, ev1)"
    by (cases "selectObject ?prefix contents None") auto
  from assms r c s have o1: "o1 = Success" by (auto simp: Query_def split: if_splits)
  from assms r c s o1 obtain obj where bo: "bo = Some obj" by (cases bo) (auto simp: Query_def)
  have "ReportHash a' = ETag obj"
  proof (cases "ReportHash a = ETag obj")
    case True
    with assms r c s o1 bo show ?thesis by (auto simp: Query_def Let_def)
  next
    case False
    with assms r c s o1 bo obtain body where b: "GetObject env (BucketNameA a) (Key obj) = Some body"
      by (cases "GetObject env (BucketNameA a) (Key obj)") (auto simp: Query_def Let_def)
    obtain o3 els ev3 where cs: "readCSV (ParseFloat env) body = (o3, els, ev3)"
      by (cases "readCSV (ParseFloat env) body") auto
    obtain o4 a4 ev4 where w: "writeMetrics_aws env els a = (o4, a4, ev4)"
      by (cases "writeMetrics_aws env els a") auto
    from assms r c s o1 bo False b cs w show ?thesis
      by (auto simp: Query_def Let_def split: if_splits)
  qed
  with r c s o1 bo show ?thesis by simp
qed

lemma getReportFile_cache_hit:
  assumes "slotOf attr = Some i" and "0 \<le> i" and "i < ReportsPerMonth"
    and "Hash (Reports g ! nat i) = MD5 attr"
  shows "getReportFile env attr g =
           (Success, g, [Log Debug ''report already parsed in cache'' [S (Name attr)]])"
  using assms
  by (auto simp: getReportFile_def slotOf_def Let_def split: if_splits option.splits)

lemma getReportFile_records_hash:
  assumes "getReportFile env attr g = (out, g', ev)" and "Name attr \<in> set (fetches ev)"
    and "\<forall>n. Log Warn ''failed to parse report JSON'' [S n] \<notin> set ev"
    and "length (Reports g) = nat ReportsPerMonth"
  shows "\<exists>i. slotOf attr = Some i \<and> 0 \<le> i \<and> i < ReportsPerMonth \<and> out = Success
            \<and> Hash (Reports g' ! nat i) = MD5 attr \<and> length (Reports g') = nat ReportsPerMonth"
proof -
  have f: "fetches (map (logElement pf n) es) = []" for pf n es
    by (induction es) (auto simp: logElement_def)
  from assms show ?thesis
    by (auto simp: getReportFile_def slotOf_def Let_def f ReportsPerMonth_def split: if_splits option.splits prod.splits)
qed

lemma fetches_logElements: "fetches (map (logElement pf n) es) = []"
  by (induction es) (auto simp: logElement_def)

subsection \<open>Report keys that do not parse, and empty listings\<close>

lemma getReportFile_key_fails:
  assumes "slotOf attr = None"
  shows "\<exists>w. getReportFile env attr g = (Success, g, [Log Warn ''invalid report filename'' w])"
  using assms
  by (auto simp: getReportFile_def slotOf_def Let_def split: if_splits option.splits)

lemma getReportFiles_skip:
  assumes "slotOf attr = None"
  shows "fst (getReportFiles env (xs @ attr # ys) g) = fst (getReportFiles env (xs @ ys) g)
       \<and> fst (snd (getReportFiles env (xs @ attr # ys) g)) = fst (snd (getReportFiles env (xs @ ys) g))"
proof (induction xs arbitrary: g)
  case Nil
  from getReportFile_key_fails [OF assms, of env g] obtain w
    where "getReportFile env attr g = (Success, g, [Log Warn ''invalid report filename'' w])" by blast
  then show ?case by (cases "getReportFiles env ys g") simp
next
  case (Cons x xs)
  obtain o1 g1 ev1 where 1: "getReportFile env x g = (o1, g1, ev1)" by (cases "getReportFile env x g") auto
  show ?case
  proof (cases "o1 = Success")
    case False
    with 1 show ?thesis by simp
  next
    case True
    with 1 Cons.IH [of g1] show ?thesis
      by (cases "getReportFiles env (xs @ attr # ys) g1"; cases "getReportFiles env (xs @ ys) g1") simp
  qed
qed

lemma getReportFiles_all_fail:
  "\<forall>attr \<in> set attrs. slotOf attr = None \<Longrightarrow> \<exists>ev. getReportFiles env attrs g = (Success, g, ev)"
proof (induction attrs)
  case Nil then show ?case by simp
next
  case (Cons x xs)
  then have "slotOf x = None" by simp
  from getReportFile_key_fails [OF this, of env g] obtain w
    where 1: "getReportFile env x g = (Success, g, [Log Warn ''invalid report filename'' w])" by blast
  from Cons obtain ev where "getReportFiles env xs g = (Success, g, ev)" by auto
  with 1 show ?case by simp
qed

lemma findReports_nothing:
  "\<forall>p \<in> set ps. Objects env b p = ([], False) \<Longrightarrow> \<exists>evs. findReports env b ps = (NothingFound, evs)"
  by (induction ps) (auto simp: Let_def)

lemma GetReports_no_objects:
  assumes "NewClient_ok env"
    and "\<forall>p \<in> set (filterLastTwoMonths (ReportPrefix g) (clock_Now env)). Objects env (BucketName g) p = ([], False)"
  shows "\<exists>ev. GetReports env g = (Success, g, ev)"
proof -
  from findReports_nothing [OF assms(2)] obtain evs
    where "findReports env (BucketName g) (filterLastTwoMonths (ReportPrefix g) (clock_Now env)) = (NothingFound, evs)"
    by blast
  with assms(1) show ?thesis by (simp add: GetReports_def)
qed

lemma GetReports_all_fail:
  assumes "NewClient_ok env"
    and "findReports env (BucketName g) (filterLastTwoMonths (ReportPrefix g) (clock_Now env))
           = (Found prefix attr others False, evs)"
    and "\<forall>x \<in> set (attr # others). slotOf x = None"
  shows "\<exists>g' ev. GetReports env g = (Success, g', ev)"
proof -
  let ?g1 = "if ReportsMonthPrefix g \<noteq> prefix
             then g\<lparr>ReportsMonthPrefix := prefix, Reports := replicate (nat ReportsPerMonth) emptyReport\<rparr> else g"
  from getReportFiles_all_fail [OF assms(3), of env ?g1] obtain ev
    where "getReportFiles env (attr # others) ?g1 = (Success, ?g1, ev)" by blast
  with assms(1,2) show ?thesis by (auto simp: GetReports_def Let_def)
qed

text \<open>
  Claim C2. An object whose name is too short for a sequence number, or whose two
  sequence characters are not a number, is skipped by \<open>getReportFile\<close> with a warning
  and no change of the state. Such an object changes neither the outcome of the run
  over a listing nor the state the run leaves, wherever it stands in the listing; a
  listing of such objects only makes \<open>GetReports\<close> return \<open>nil\<close>; and when neither
  candidate prefix has an object, \<open>GetReports\<close> returns \<open>nil\<close> with the state as it was.
\<close>

theorem report_key_failures_are_skipped:
  "(slotOf attr = None \<longrightarrow>
      (\<exists>w. getReportFile env attr g = (Success, g, [Log Warn ''invalid report filename'' w]))
      \<and> fst (getReportFiles env (xs @ attr # ys) g) = fst (getReportFiles env (xs @ ys) g)
      \<and> fst (snd (getReportFiles env (xs @ attr # ys) g)) = fst (snd (getReportFiles env (xs @ ys) g)))
   \<and> (NewClient_ok env
      \<and> findReports env (BucketName g) (filterLastTwoMonths (ReportPrefix g) (clock_Now env))
           = (Found prefix first others False, evs)
      \<and> (\<forall>x \<in> set (first # others). slotOf x = None)
     \<longrightarrow> (\<exists>g' ev. GetReports env g = (Success, g', ev)))
   \<and> (NewClient_ok env
      \<and> (\<forall>p \<in> set (filterLastTwoMonths (ReportPrefix g) (clock_Now env)).
            Objects env (BucketName g) p = ([], False))
     \<longrightarrow> (\<exists>ev. GetReports env g = (Success, g, ev)))"
  using getReportFile_key_fails [of attr env g] getReportFiles_skip [of attr env xs ys g]
    GetReports_all_fail [of env g prefix first others evs] GetReports_no_objects [of env g]
  by blast

lemma bad_keys_slots: "slotOf short_name = None \<and> slotOf no_number = None"
  by (simp add: slotOf_def short_name_def no_number_def eval_atoi)

lemma bad_keys_found:
  "findReports bad_keys_gcp_env (BucketName example_gcp)
     (filterLastTwoMonths (ReportPrefix example_gcp) (clock_Now bad_keys_gcp_env))
   = (Found ''prefix-2017-01-'' short_name [no_number] False,
      [Log Debug ''looking for reports in bucket with prefix'' [S ''billing'', S ''prefix-2017-01-'']])"
  by (simp add: bad_keys_gcp_env_def example_gcp_env_def example_gcp_def eval_fmt)

theorem report_key_failures_are_skipped_witness:
  "slotOf short_name = None \<and> slotOf no_number = None
   \<and> (\<exists>w. getReportFile bad_keys_gcp_env no_number example_gcp
            = (Success, example_gcp, [Log Warn ''invalid report filename'' w]))
   \<and> fst (getReportFiles bad_keys_gcp_env ([short_name] @ no_number # []) example_gcp)
       = fst (getReportFiles bad_keys_gcp_env ([short_name] @ []) example_gcp)
   \<and> NewClient_ok bad_keys_gcp_env
   \<and> (\<exists>g' ev. GetReports bad_keys_gcp_env example_gcp = (Success, g', ev))
   \<and> NewClient_ok empty_gcp_env
   \<and> filterLastTwoMonths (ReportPrefix example_gcp) (clock_Now empty_gcp_env)
       = [''prefix-2017-01-'', ''prefix-2016-12-'']
   \<and> Objects empty_gcp_env (BucketName example_gcp) ''prefix-2017-01-'' = ([], False)
   \<and> Objects empty_gcp_env (BucketName example_gcp) ''prefix-2016-12-'' = ([], False)
   \<and> (\<exists>ev. GetReports empty_gcp_env example_gcp = (Success, example_gcp, ev))"
proof -
  have n1: "NewClient_ok bad_keys_gcp_env" by (simp add: bad_keys_gcp_env_def example_gcp_env_def)
  have n2: "NewClient_ok empty_gcp_env" by (simp add: empty_gcp_env_def example_gcp_env_def)
  have a: "\<forall>x \<in> set (short_name # [no_number]). slotOf x = None" using bad_keys_slots by simp
  have e: "\<forall>p \<in> set (filterLastTwoMonths (ReportPrefix example_gcp) (clock_Now empty_gcp_env)).
          Objects empty_gcp_env (BucketName example_gcp) p = ([], False)"
    by (simp add: empty_gcp_env_def)
  note t = report_key_failures_are_skipped [of no_number bad_keys_gcp_env example_gcp "[short_name]" "[]"
      "''prefix-2017-01-''" short_name "[no_number]"
      "[Log Debug ''looking for reports in bucket with prefix'' [S ''billing'', S ''prefix-2017-01-'']]"]
  from t [THEN conjunct1] bad_keys_slots
  have 1: "(\<exists>w. getReportFile bad_keys_gcp_env no_number example_gcp
            = (Success, example_gcp, [Log Warn ''invalid report filename'' w]))
     \<and> fst (getReportFiles bad_keys_gcp_env ([short_name] @ no_number # []) example_gcp)
       = fst (getReportFiles bad_keys_gcp_env ([short_name] @ []) example_gcp)"
    by auto
  from t [THEN conjunct2, THEN conjunct1] bad_keys_found n1 a
  have 3: "\<exists>g' ev. GetReports bad_keys_gcp_env example_gcp = (Success, g', ev)"
    by auto
  from report_key_failures_are_skipped [of no_number empty_gcp_env example_gcp "[]" "[]", THEN conjunct2, THEN conjunct2] n2 e
  have 2: "\<exists>ev. GetReports empty_gcp_env example_gcp = (Success, example_gcp, ev)" by auto
  have f: "filterLastTwoMonths (ReportPrefix example_gcp) (clock_Now empty_gcp_env)
       = [''prefix-2017-01-'', ''prefix-2016-12-'']"
    by (simp add: empty_gcp_env_def example_gcp_env_def example_gcp_def eval_fmt)
  have o: "Objects empty_gcp_env (BucketName example_gcp) ''prefix-2017-01-'' = ([], False)"
    "Objects empty_gcp_env (BucketName example_gcp) ''prefix-2016-12-'' = ([], False)"
    by (simp_all add: empty_gcp_env_def)
  from bad_keys_slots n1 n2 f o 1 2 3 show ?thesis by auto
qed

subsection \<open>The ancestor-path walks\<close>

lemma walkEnds_path: "walkEnds byID e \<Longrightarrow> \<exists>r. path byID e = Some r"
proof (induction rule: walkEnds.induct)
  case (atRoot e)
  then show ?case by (simp add: path.simps)
next
  case (atMissing e)
  then show ?case by (simp add: path.simps)
next
  case (atParent e p)
  then obtain r where "path byID p = Some r" by blast
  with atParent show ?case by (subst path.simps) simp
qed




























lemma refreshAccounts_walk_panics:
  assumes "getAccountPath env None
             (applyTags d \<lparr>ID = fst account, NameA = snd account, Owner = [], Parent = [], Path = [],
                           Type = AccountTypeProject\<rparr> (fst (ListTagsForResource env (fst account)))) m
           = Some (Panic, p, ac2, m2)"
  shows "\<exists>evs. refreshAccounts env d (account # rest) m = Some (Panic, m2, evs)"
  using assms by (simp add: refreshAccount_def Let_def)

lemma refreshAccounts_walk_diverges:
  assumes "getAccountPath env None
             (applyTags d \<lparr>ID = fst account, NameA = snd account, Owner = [], Parent = [], Path = [],
                           Type = AccountTypeProject\<rparr> (fst (ListTagsForResource env (fst account)))) m
           = None"
  shows "refreshAccounts env d (account # rest) m = None"
  using assms by (simp add: refreshAccount_def Let_def)








subsection \<open>Account names\<close>
















subsection \<open>A pass that fetches nothing\<close>

lemma getReportFile_no_fetch:
  "getReportFile env attr g = (out, g', ev) \<Longrightarrow> fetches ev = [] \<Longrightarrow> g' = g"
  by (auto simp: getReportFile_def Let_def split: if_splits option.splits prod.splits)

lemma getReportFiles_no_fetch:
  "getReportFiles env attrs g = (out, g', ev) \<Longrightarrow> fetches ev = [] \<Longrightarrow> g' = g"
proof (induction attrs arbitrary: g out g' ev)
  case Nil then show ?case by simp
next
  case (Cons x xs)
  obtain o1 g1 ev1 where 1: "getReportFile env x g = (o1, g1, ev1)" by (cases "getReportFile env x g") auto
  show ?case
  proof (cases "o1 = Success")
    case False
    with Cons.prems 1 getReportFile_no_fetch [OF 1] show ?thesis by simp
  next
    case True
    obtain o2 g2 ev2 where 2: "getReportFiles env xs g1 = (o2, g2, ev2)" by (cases "getReportFiles env xs g1") auto
    with Cons.prems 1 True have e: "ev = ev1 @ ev2" "g' = g2" by simp_all
    with Cons.prems(2) have f: "fetches ev1 = []" "fetches ev2 = []" by (simp_all add: fetches_append)
    from getReportFile_no_fetch [OF 1 f(1)] Cons.IH [OF 2 f(2)] e show ?thesis by simp
  qed
qed

lemma GetReports_no_fetch:
  assumes "GetReports env g = (out, g', ev)" and "fetches ev = []"
  shows "Reports g' = Reports g \<or> Reports g' = replicate (nat ReportsPerMonth) emptyReport"
proof (cases "NewClient_ok env")
  case False
  with assms show ?thesis by (simp add: GetReports_def)
next
  case True
  obtain r evs where fr: "findReports env (BucketName g) (filterLastTwoMonths (ReportPrefix g) (clock_Now env)) = (r, evs)"
    by (cases "findReports env (BucketName g) (filterLastTwoMonths (ReportPrefix g) (clock_Now env))") auto
  show ?thesis
  proof (cases r)
    case ListFailed
    with assms True fr show ?thesis by (auto simp: GetReports_def)
  next
    case NothingFound
    with assms True fr show ?thesis by (auto simp: GetReports_def)
  next
    case (Found prefix attr others fails)
    let ?g1 = "if ReportsMonthPrefix g \<noteq> prefix
               then g\<lparr>ReportsMonthPrefix := prefix, Reports := replicate (nat ReportsPerMonth) emptyReport\<rparr> else g"
    obtain o2 g2 ev2 where 2: "getReportFiles env (attr # others) ?g1 = (o2, g2, ev2)"
      by (cases "getReportFiles env (attr # others) ?g1") auto
    from assms True fr Found 2 have "g' = g2" and "\<exists>pre. ev = pre @ ev2"
      by (auto simp: GetReports_def Let_def split: if_splits)
    with assms(2) have "fetches ev2 = []" by (auto simp: fetches_append)
    from getReportFiles_no_fetch [OF 2 this] \<open>g' = g2\<close> show ?thesis by (auto split: if_splits)
  qed
qed

lemma concat_replicate_Nil: "concat (replicate n []) = []"
  by (induction n) auto

lemma gatherCosts_cleared:
  "Reports g = replicate n emptyReport \<Longrightarrow> gatherCosts pf g = []"
  by (simp add: gatherCosts_def reduceElementsByProjectIDServiceCurrency_def reduceElementsByFunc_def
      emptyReport_def concat_replicate_Nil)

lemma writeMetric_frame:
  "writeMetric pf labels elem g = (out, g', ev) \<Longrightarrow>
     Reports g' = Reports g \<and> resourcesMetadata g' = resourcesMetadata g \<and> fetches ev = []"
  by (auto simp: writeMetric_def Let_def split: if_splits option.splits)

lemma writeMetrics_frame:
  "writeMetrics pf elems g = Some (out, g', ev) \<Longrightarrow>
     Reports g' = Reports g \<and> resourcesMetadata g' = resourcesMetadata g \<and> fetches ev = []"
proof (induction elems arbitrary: g out g' ev)
  case Nil then show ?case by simp
next
  case (Cons x xs)
  from Cons.prems obtain labels where l: "projectLabels (resourcesMetadata g) (ProjectID x) = Some labels"
    by (auto split: bind_splits)
  obtain o1 g1 ev1 where 1: "writeMetric pf labels x g = (o1, g1, ev1)" by (cases "writeMetric pf labels x g") auto
  from writeMetric_step [OF 1] have o1: "o1 = Success" by simp
  with Cons.prems l 1 obtain o2 g2 ev2 where 2: "writeMetrics pf xs g1 = Some (o2, g2, ev2)"
    and r: "out = o2" "g' = g2" "ev = ev1 @ ev2"
    by (auto split: bind_splits)
  from Cons.IH [OF 2] writeMetric_frame [OF 1] r show ?case by (simp add: fetches_append)
qed

lemma writeMetrics_mono:
  "writeMetrics pf elems g = Some (out, g', ev) \<Longrightarrow> lookup0 (metricValues g) k \<le> lookup0 (metricValues g') k"
proof (induction elems arbitrary: g out g' ev)
  case Nil then show ?case by simp
next
  case (Cons x xs)
  from Cons.prems obtain labels where l: "projectLabels (resourcesMetadata g) (ProjectID x) = Some labels"
    by (auto split: bind_splits)
  obtain o1 g1 ev1 where 1: "writeMetric pf labels x g = (o1, g1, ev1)" by (cases "writeMetric pf labels x g") auto
  note s1 = writeMetric_step [OF 1, of k]
  with Cons.prems l 1 obtain o2 g2 ev2 where 2: "writeMetrics pf xs g1 = Some (o2, g2, ev2)"
    and r: "out = o2" "g' = g2" "ev = ev1 @ ev2"
    by (auto split: bind_splits)
  from s1 have "lookup0 (metricValues g) k \<le> lookup0 (metricValues g1) k" by (auto split: if_splits)
  with Cons.IH [OF 2] r show ?case by simp
qed

lemma writeMetrics_post:
  "writeMetrics pf elems g = Some (out, g', ev) \<Longrightarrow>
     \<forall>e \<in> set elems. GetValue pf e \<le> lookup0 (metricValues g') (groupByProjectIDServiceCurrency e)"
proof (induction elems arbitrary: g out g' ev)
  case Nil then show ?case by simp
next
  case (Cons x xs)
  from Cons.prems obtain labels where l: "projectLabels (resourcesMetadata g) (ProjectID x) = Some labels"
    by (auto split: bind_splits)
  obtain o1 g1 ev1 where 1: "writeMetric pf labels x g = (o1, g1, ev1)" by (cases "writeMetric pf labels x g") auto
  note s1 = writeMetric_step [OF 1, of "groupByProjectIDServiceCurrency x"]
  with Cons.prems l 1 obtain o2 g2 ev2 where 2: "writeMetrics pf xs g1 = Some (o2, g2, ev2)"
    and r: "out = o2" "g' = g2" "ev = ev1 @ ev2"
    by (auto split: bind_splits)
  from s1 have "GetValue pf x \<le> lookup0 (metricValues g1) (groupByProjectIDServiceCurrency x)"
    by (auto split: if_splits)
  with writeMetrics_mono [OF 2, of "groupByProjectIDServiceCurrency x"]
  have "GetValue pf x \<le> lookup0 (metricValues g2) (groupByProjectIDServiceCurrency x)" by simp
  with Cons.IH [OF 2] r show ?case by simp
qed

lemma counterValue_WithLabelValues: "counterValue (WithLabelValues v l) l' = counterValue v l'"
  by (simp add: counterValue_def WithLabelValues_def split: option.splits)

lemma counterValue_upd: "counterValue (v(l \<mapsto> x)) l' = (if l' = l then x else counterValue v l')"
  by (simp add: counterValue_def)

lemma writeMetric_idle:
  assumes "writeMetric pf labels elem g = (out, g', ev)"
    and "GetValue pf elem \<le> lookup0 (metricValues g) (groupByProjectIDServiceCurrency elem)"
  shows "lookup0 (metricValues g') k = lookup0 (metricValues g) k
       \<and> counterValue (MetricMonthlyCosts g') lvs = counterValue (MetricMonthlyCosts g) lvs
       \<and> set (deltasFor k ev) \<subseteq> {0}"
  using assms
  by (auto simp: writeMetric_def Let_def lookup0_init0 lookup0_upd CounterAddTo_def
      counterValue_WithLabelValues counterValue_upd split: if_splits)

lemma writeMetrics_idle:
  "writeMetrics pf elems g = Some (out, g', ev) \<Longrightarrow>
   \<forall>e \<in> set elems. GetValue pf e \<le> lookup0 (metricValues g) (groupByProjectIDServiceCurrency e) \<Longrightarrow>
     lookup0 (metricValues g') k = lookup0 (metricValues g) k
     \<and> counterValue (MetricMonthlyCosts g') lvs = counterValue (MetricMonthlyCosts g) lvs
     \<and> set (deltasFor k ev) \<subseteq> {0}"
proof (induction elems arbitrary: g out g' ev)
  case Nil then show ?case by simp
next
  case (Cons x xs)
  from Cons.prems obtain labels where l: "projectLabels (resourcesMetadata g) (ProjectID x) = Some labels"
    by (auto split: bind_splits)
  obtain o1 g1 ev1 where 1: "writeMetric pf labels x g = (o1, g1, ev1)" by (cases "writeMetric pf labels x g") auto
  from writeMetric_step [OF 1] have o1: "o1 = Success" by simp
  with Cons.prems l 1 obtain o2 g2 ev2 where 2: "writeMetrics pf xs g1 = Some (o2, g2, ev2)"
    and r: "out = o2" "g' = g2" "ev = ev1 @ ev2"
    by (auto split: bind_splits)
  from Cons.prems(2) have x: "GetValue pf x \<le> lookup0 (metricValues g) (groupByProjectIDServiceCurrency x)" by simp
  have same: "lookup0 (metricValues g1) k' = lookup0 (metricValues g) k'" for k'
    using writeMetric_idle [OF 1 x, of k'] by simp
  from Cons.prems(2) same
  have xs: "\<forall>e \<in> set xs. GetValue pf e \<le> lookup0 (metricValues g1) (groupByProjectIDServiceCurrency e)" by simp
  from Cons.IH [OF 2 xs] writeMetric_idle [OF 1 x, of k lvs] r show ?case
    by (auto simp: deltasFor_append)
qed

lemma update_events: "update env r = (out, r', ev) \<Longrightarrow> fetches ev = [] \<and> deltasFor k ev = []"
  by (auto simp: update_def Let_def split: if_splits prod.splits)

lemma gatherCosts_Reports: "Reports g = Reports h \<Longrightarrow> gatherCosts pf g = gatherCosts pf h"
  by (simp add: gatherCosts_def)

lemma OldQuery_parts:
  assumes "OldQuery env g = Some (out, g', ev)"
  shows "(GetReports env g = (out, g', ev) \<and> out \<noteq> Success)
       \<or> (\<exists>g1 ev1 r2 ev2. GetReports env g = (Success, g1, ev1) \<and> out = Panic
             \<and> g' = g1\<lparr>resourcesMetadata := r2\<rparr> \<and> ev = ev1 @ ev2
             \<and> fetches ev2 = [] \<and> (\<forall>k. deltasFor k ev2 = []))
       \<or> (\<exists>g1 ev1 r2 ev2 ev3. GetReports env g = (Success, g1, ev1)
             \<and> writeMetrics (ParseFloat env) (gatherCosts (ParseFloat env) (g1\<lparr>resourcesMetadata := r2\<rparr>))
                  (g1\<lparr>resourcesMetadata := r2\<rparr>) = Some (out, g', ev3)
             \<and> ev = ev1 @ ev2 @ ev3 \<and> fetches ev2 = [] \<and> (\<forall>k. deltasFor k ev2 = []))"
proof -
  obtain o1 g1 ev1 where 1: "GetReports env g = (o1, g1, ev1)" by (cases "GetReports env g") auto
  show ?thesis
  proof (cases "o1 = Success")
    case False
    with assms 1 show ?thesis by (simp add: OldQuery_def)
  next
    case True
    obtain o2 r2 ev2 where 2: "update env (resourcesMetadata g1) = (o2, r2, ev2)"
      by (cases "update env (resourcesMetadata g1)") auto
    from update_events [OF 2] have e2: "fetches ev2 = []" "\<forall>k. deltasFor k ev2 = []" by simp_all
    show ?thesis
    proof (cases "o2 = Panic")
      case True
      with assms 1 \<open>o1 = Success\<close> 2 e2 show ?thesis by (auto simp: OldQuery_def)
    next
      case False
      let ?ev2 = "ev2 @ (if o2 \<noteq> Success then [Log Warn ''error updating resource metadata'' []] else [])"
      have e2': "fetches ?ev2 = []" "\<forall>k. deltasFor k ?ev2 = []"
        using e2 by (simp_all add: fetches_append deltasFor_append)
      from assms 1 \<open>o1 = Success\<close> 2 False obtain ev3
        where "writeMetrics (ParseFloat env) (gatherCosts (ParseFloat env) (g1\<lparr>resourcesMetadata := r2\<rparr>))
                  (g1\<lparr>resourcesMetadata := r2\<rparr>) = Some (out, g', ev3)"
          and "ev = ev1 @ ?ev2 @ ev3"
        by (auto simp: OldQuery_def Let_def split: bind_splits)
      with 1 \<open>o1 = Success\<close> e2' show ?thesis by blast
    qed
  qed
qed

lemma OldQuery_second_pass_idle:
  assumes first: "OldQuery env1 g0 = Some (Success, g, ev0)"
    and second: "OldQuery env2 g = Some (out, g', ev)"
    and nofetch: "fetches ev = []"
    and pf: "ParseFloat env2 = ParseFloat env1"
  shows "lookup0 (metricValues g') k = lookup0 (metricValues g) k
       \<and> counterValue (MetricMonthlyCosts g') lvs = counterValue (MetricMonthlyCosts g) lvs
       \<and> set (deltasFor k ev) \<subseteq> {0}"
proof -
  let ?pf = "ParseFloat env1"
  have post: "\<forall>e \<in> set (gatherCosts ?pf g). GetValue ?pf e \<le> lookup0 (metricValues g) (groupByProjectIDServiceCurrency e)"
  proof -
    from OldQuery_parts [OF first] obtain ga eva ra evb evc
      where w: "writeMetrics ?pf (gatherCosts ?pf (ga\<lparr>resourcesMetadata := ra\<rparr>))
                  (ga\<lparr>resourcesMetadata := ra\<rparr>) = Some (Success, g, evc)"
      by auto
    from writeMetrics_frame [OF w] have "Reports g = Reports (ga\<lparr>resourcesMetadata := ra\<rparr>)" by simp
    then have "gatherCosts ?pf g = gatherCosts ?pf (ga\<lparr>resourcesMetadata := ra\<rparr>)" by (rule gatherCosts_Reports)
    with writeMetrics_post [OF w] show ?thesis by simp
  qed
  from OldQuery_parts [OF second]
  consider (fail) "GetReports env2 g = (out, g', ev)"
    | (panic) g1 ev1 r2 ev2 where "GetReports env2 g = (Success, g1, ev1)"
        "g' = g1\<lparr>resourcesMetadata := r2\<rparr>" "ev = ev1 @ ev2" "\<forall>k. deltasFor k ev2 = []"
    | (run) g1 ev1 r2 ev2 ev3 where "GetReports env2 g = (Success, g1, ev1)"
        "writeMetrics ?pf (gatherCosts ?pf (g1\<lparr>resourcesMetadata := r2\<rparr>))
                  (g1\<lparr>resourcesMetadata := r2\<rparr>) = Some (out, g', ev3)"
        "ev = ev1 @ ev2 @ ev3" "\<forall>k. deltasFor k ev2 = []"
    using pf by auto
  then show ?thesis
  proof cases
    case fail
    from GetReports_frame [OF fail, of k] show ?thesis by simp
  next
    case panic
    from GetReports_frame [OF panic(1), of k] panic show ?thesis by (simp add: deltasFor_append)
  next
    case run
    let ?g2 = "g1\<lparr>resourcesMetadata := r2\<rparr>"
    note f1 = GetReports_frame [OF run(1)]
    from nofetch run(3) have "fetches ev1 = []" by (simp add: fetches_append)
    from GetReports_no_fetch [OF run(1) this]
    have "Reports g1 = Reports g \<or> Reports g1 = replicate (nat ReportsPerMonth) emptyReport" .
    then have hyp: "\<forall>e \<in> set (gatherCosts ?pf ?g2).
        GetValue ?pf e \<le> lookup0 (metricValues ?g2) (groupByProjectIDServiceCurrency e)"
    proof
      assume "Reports g1 = Reports g"
      then have "gatherCosts ?pf ?g2 = gatherCosts ?pf g" by (simp add: gatherCosts_def)
      with post f1 show ?thesis by simp
    next
      assume "Reports g1 = replicate (nat ReportsPerMonth) emptyReport"
      then have "gatherCosts ?pf ?g2 = []" using gatherCosts_cleared [of ?g2 "nat ReportsPerMonth" ?pf] by simp
      then show ?thesis by simp
    qed
    from writeMetrics_idle [OF run(2) hyp, of k lvs] f1 [of k] run(3,4) show ?thesis
      by (simp add: deltasFor_append)
  qed
qed

lemma concat_Elements_single:
  "i < n \<Longrightarrow> concat (map Elements ((replicate n emptyReport)[i := r])) = Elements r"
proof (induction n arbitrary: i)
  case 0 then show ?case by simp
next
  case (Suc n)
  show ?case
  proof (cases i)
    case 0
    then show ?thesis by (simp add: emptyReport_def concat_replicate_Nil)
  next
    case (Suc j)
    with Suc.prems Suc.IH [of j] show ?thesis by (simp add: emptyReport_def)
  qed
qed

lemma emptyReport_sel: "Hash emptyReport = None" "Elements emptyReport = []"
  by (simp_all add: emptyReport_def)

lemmas eval_OldQuery = OldQuery_def GetReports_def getReportFile_def eval_atoi ReportsPerMonth_def
  update_def Hour_def gatherCosts_def reduceElementsByProjectIDServiceCurrency_def
  reduceElementsByFunc_def newGroupElem_def addToGroup_def logElement_def concat_Elements_single emptyReport_sel

lemma example_gcp_first_pass:
  "OldQuery example_gcp_env example_gcp =
     Some (Success, seen_gcp,
           [Log Debug ''looking for reports in bucket with prefix'' [S ''billing'', S ''prefix-2017-01-''],
            Fetch ''prefix-2017-01-02.json'',
            Log Debug ''prefix-2017-01-02.json'' [S ''USD'', S ''compute-engine'', S ''demo-1'', F 80],
            CounterAdd ''demo-1-compute-engine-USD''
              [''gcp'', ''USD'', ''demo-1'', ''compute-engine'', [], []] 80])"
  by (simp add: seen_gcp_def example_gcp_env_def example_gcp_def example_metadata_def
      example_element_def eval_fmt eval_OldQuery eval_gcp)

lemma example_gcp_second_pass:
  "OldQuery example_gcp_env seen_gcp =
     Some (Success, seen_gcp,
           [Log Debug ''looking for reports in bucket with prefix'' [S ''billing'', S ''prefix-2017-01-''],
            Log Debug ''report already parsed in cache'' [S ''prefix-2017-01-02.json''],
            CounterAdd ''demo-1-compute-engine-USD''
              [''gcp'', ''USD'', ''demo-1'', ''compute-engine'', [], []] 0])"
  by (simp add: seen_gcp_def example_gcp_env_def example_gcp_def example_metadata_def
      example_element_def eval_fmt eval_OldQuery eval_gcp)

lemma example_aws_first_Query:
  "\<exists>a1 ev1. Query example_aws_env example_aws = (Success, a1, ev1)
     \<and> fetches ev1 = [''123456789012-aws-billing-csv-2017-01.csv'']
     \<and> ReportHash a1 = ''e1'' \<and> BucketNameA a1 = ''billing'' \<and> rootAccountID a1 = ''123456789012''"
  by (simp add: example_aws_env_def example_aws_def eval_aws)

lemma example_gcp_first_fetch:
  "\<exists>g1 ev1. getReportFile example_gcp_env \<lparr>Name = ''prefix-2017-01-02.json'', MD5 = Some ''h1''\<rparr> example_gcp
       = (Success, g1, ev1)
     \<and> fetches ev1 = [''prefix-2017-01-02.json'']
     \<and> Hash (Reports g1 ! 1) = Some ''h1''"
  by (simp add: example_gcp_env_def example_gcp_def getReportFile_def eval_atoi ReportsPerMonth_def
       emptyReport_def Let_def fetches_logElements)

text \<open>
  Claim C10. When the hash of the report object equals the hash the state has recorded
  for it, the AWS \<open>Query\<close> returns \<open>nil\<close> with the state as it was, downloads nothing
  and adds nothing to a counter; the GCP \<open>getReportFile\<close> returns with the state as it
  was and only logs that the report is in the cache; \<open>GetReports\<close> as a whole never
  writes the counters or the stored last values; and a GCP \<open>OldQuery\<close> that follows a
  successful one and downloads nothing changes no counter value and no stored last
  value (every \<open>Add\<close> it makes adds 0).
\<close>

theorem unchanged_hash_is_not_reparsed:
  "(ListObjects env (BucketNameA a) (fst (RootAccountID env a) @ ''-aws-billing-csv-'') = Some contents
      \<and> selectObject (fst (RootAccountID env a) @ ''-aws-billing-csv-'') contents None = (Success, Some obj, ev1)
      \<and> ReportHash a = ETag obj
     \<longrightarrow> (\<exists>ev. Query env a = (Success, a, ev) \<and> fetches ev = [] \<and> deltasFor k ev = []))
   \<and> (slotOf attr = Some i \<and> 0 \<le> i \<and> i < ReportsPerMonth \<and> Hash (Reports g ! nat i) = MD5 attr
     \<longrightarrow> getReportFile genv attr g =
           (Success, g, [Log Debug ''report already parsed in cache'' [S (Name attr)]]))
   \<and> (GetReports genv g = (out, g', gev)
     \<longrightarrow> MetricMonthlyCosts g' = MetricMonthlyCosts g \<and> metricValues g' = metricValues g
         \<and> deltasFor k gev = [])
   \<and> (OldQuery genv0 g0 = Some (Success, g, gev0) \<and> OldQuery genv g = Some (out2, g2, gev2)
      \<and> fetches gev2 = [] \<and> ParseFloat genv = ParseFloat genv0
     \<longrightarrow> lookup0 (metricValues g2) k = lookup0 (metricValues g) k
         \<and> counterValue (MetricMonthlyCosts g2) lvs = counterValue (MetricMonthlyCosts g) lvs
         \<and> set (deltasFor k gev2) \<subseteq> {0})"
  using Query_cache_hit [of env a contents obj ev1 k] getReportFile_cache_hit [of attr i g genv]
    GetReports_frame [of genv g out g' gev k]
    OldQuery_second_pass_idle [of genv0 g0 g gev0 genv out2 g2 gev2 k lvs]
  by blast

theorem unchanged_hash_is_not_reparsed_witness:
  "(\<exists>a1 ev1. Query example_aws_env example_aws = (Success, a1, ev1)
       \<and> fetches ev1 = [''123456789012-aws-billing-csv-2017-01.csv'']
       \<and> ReportHash a1 = ETag \<lparr>Key = ''123456789012-aws-billing-csv-2017-01.csv'', ETag = ''e1''\<rparr>
       \<and> (\<exists>ev. Query example_aws_env a1 = (Success, a1, ev) \<and> fetches ev = []
              \<and> deltasFor ''111-S3-USD'' ev = []))
   \<and> (\<exists>g1 ev1. getReportFile example_gcp_env \<lparr>Name = ''prefix-2017-01-02.json'', MD5 = Some ''h1''\<rparr> example_gcp
                  = (Success, g1, ev1)
       \<and> fetches ev1 = [''prefix-2017-01-02.json'']
       \<and> slotOf \<lparr>Name = ''prefix-2017-01-02.json'', MD5 = Some ''h1''\<rparr> = Some 1
       \<and> Hash (Reports g1 ! nat 1) = MD5 \<lparr>Name = ''prefix-2017-01-02.json'', MD5 = Some ''h1''\<rparr>
       \<and> getReportFile example_gcp_env \<lparr>Name = ''prefix-2017-01-02.json'', MD5 = Some ''h1''\<rparr> g1
            = (Success, g1, [Log Debug ''report already parsed in cache'' [S ''prefix-2017-01-02.json'']]))
   \<and> (\<exists>ev1 ev2. OldQuery example_gcp_env example_gcp = Some (Success, seen_gcp, ev1)
       \<and> fetches ev1 = [''prefix-2017-01-02.json'']
       \<and> OldQuery example_gcp_env seen_gcp = Some (Success, seen_gcp, ev2)
       \<and> fetches ev2 = []
       \<and> set (deltasFor ''demo-1-compute-engine-USD'' ev2) \<subseteq> {0})"
proof -
  let ?obj = "\<lparr>Key = ''123456789012-aws-billing-csv-2017-01.csv'', ETag = ''e1''\<rparr>"
  let ?attr = "\<lparr>Name = ''prefix-2017-01-02.json'', MD5 = Some ''h1''\<rparr>"
  obtain a1 ev1 where q: "Query example_aws_env example_aws = (Success, a1, ev1)"
    and f: "fetches ev1 = [''123456789012-aws-billing-csv-2017-01.csv'']"
    and h: "ReportHash a1 = ''e1''" and b: "BucketNameA a1 = ''billing''"
    and r: "rootAccountID a1 = ''123456789012''"
    using example_aws_first_Query by blast
  obtain g1 gev1 where gq: "getReportFile example_gcp_env ?attr example_gcp = (Success, g1, gev1)"
    and gf: "fetches gev1 = [''prefix-2017-01-02.json'']"
    and gh: "Hash (Reports g1 ! 1) = Some ''h1''"
    using example_gcp_first_fetch by blast
  have l: "ListObjects example_aws_env (BucketNameA a1) (fst (RootAccountID example_aws_env a1) @ ''-aws-billing-csv-'')
             = Some [?obj]"
    using b r by (simp add: example_aws_env_def RootAccountID_def)
  have s: "\<exists>e. selectObject (fst (RootAccountID example_aws_env a1) @ ''-aws-billing-csv-'') [?obj] None
             = (Success, Some ?obj, e)"
    using r by (simp add: RootAccountID_def Let_def)
  then obtain e where s': "selectObject (fst (RootAccountID example_aws_env a1) @ ''-aws-billing-csv-'') [?obj] None
             = (Success, Some ?obj, e)" by blast
  have sl: "slotOf ?attr = Some 1" by (simp add: slotOf_def eval_atoi)
  note t = unchanged_hash_is_not_reparsed [where env = example_aws_env and a = a1 and contents = "[?obj]"
      and obj = ?obj and ?ev1.0 = e and attr = ?attr and i = 1 and genv = example_gcp_env]
  from t [where k = "''111-S3-USD''" and g = g1, THEN conjunct1] l s' h
  have 1: "\<exists>ev. Query example_aws_env a1 = (Success, a1, ev) \<and> fetches ev = []
              \<and> deltasFor ''111-S3-USD'' ev = []" by simp
  from t [where k = "''111-S3-USD''" and g = g1, THEN conjunct2, THEN conjunct1] sl gh
  have 2: "getReportFile example_gcp_env ?attr g1
            = (Success, g1, [Log Debug ''report already parsed in cache'' [S ''prefix-2017-01-02.json'']])"
    by (simp add: ReportsPerMonth_def)
  have f2: "fetches [Log Debug ''looking for reports in bucket with prefix'' [S ''billing'', S ''prefix-2017-01-''],
            Log Debug ''report already parsed in cache'' [S ''prefix-2017-01-02.json''],
            CounterAdd ''demo-1-compute-engine-USD''
              [''gcp'', ''USD'', ''demo-1'', ''compute-engine'', [], []] 0] = []" by simp
  from t [where k = "''demo-1-compute-engine-USD''" and g = seen_gcp and ?genv0.0 = example_gcp_env
      and ?g0.0 = example_gcp, THEN conjunct2, THEN conjunct2, THEN conjunct2]
    example_gcp_first_pass example_gcp_second_pass f2
  have 3: "set (deltasFor ''demo-1-compute-engine-USD''
           [Log Debug ''looking for reports in bucket with prefix'' [S ''billing'', S ''prefix-2017-01-''],
            Log Debug ''report already parsed in cache'' [S ''prefix-2017-01-02.json''],
            CounterAdd ''demo-1-compute-engine-USD''
              [''gcp'', ''USD'', ''demo-1'', ''compute-engine'', [], []] 0]) \<subseteq> {0}"
    by blast
  have 4: "\<exists>ev1 ev2. OldQuery example_gcp_env example_gcp = Some (Success, seen_gcp, ev1)
       \<and> fetches ev1 = [''prefix-2017-01-02.json'']
       \<and> OldQuery example_gcp_env seen_gcp = Some (Success, seen_gcp, ev2)
       \<and> fetches ev2 = []
       \<and> set (deltasFor ''demo-1-compute-engine-USD'' ev2) \<subseteq> {0}"
    using example_gcp_first_pass example_gcp_second_pass 3 by simp
  from q f h 1 gq gf sl gh 2 4 show ?thesis by auto
qed

subsection \<open>When the passes return\<close>

text \<open>
  The GCP loop returns when the parent chain of every project it meets ends; the body
  of the AWS loop returns normally on a cost that has not fallen.
\<close>

lemma writeMetrics_returns:
  "\<forall>e \<in> set elems. \<forall>md. projectByID (resourcesMetadata g) (ProjectID e) = Some md
        \<longrightarrow> walkEnds (metadataByID (resourcesMetadata g)) md \<Longrightarrow>
   \<exists>g' ev. writeMetrics pf elems g = Some (Success, g', ev)"
proof (induction elems arbitrary: g)
  case Nil then show ?case by simp
next
  case (Cons x xs)
  have "\<exists>labels. projectLabels (resourcesMetadata g) (ProjectID x) = Some labels"
  proof (cases "projectByID (resourcesMetadata g) (ProjectID x)")
    case None
    then show ?thesis by (simp add: projectLabels_def)
  next
    case (Some md)
    with Cons.prems have "walkEnds (metadataByID (resourcesMetadata g)) md" by simp
    from walkEnds_path [OF this] Some show ?thesis by (auto simp: projectLabels_def)
  qed
  then obtain labels where l: "projectLabels (resourcesMetadata g) (ProjectID x) = Some labels" by blast
  obtain o1 g1 ev1 where 1: "writeMetric pf labels x g = (o1, g1, ev1)" by (cases "writeMetric pf labels x g") auto
  from writeMetric_step [OF 1] have o1: "o1 = Success" by simp
  from writeMetric_frame [OF 1] have "resourcesMetadata g1 = resourcesMetadata g" by simp
  with Cons.prems have "\<forall>e \<in> set xs. \<forall>md. projectByID (resourcesMetadata g1) (ProjectID e) = Some md
        \<longrightarrow> walkEnds (metadataByID (resourcesMetadata g1)) md" by simp
  from Cons.IH [OF this] obtain g2 ev2 where "writeMetrics pf xs g1 = Some (Success, g2, ev2)" by blast
  with l 1 o1 show ?case by simp
qed

lemma writeMetric_aws_rising:
  "lookup0 (metricValuesA a) (groupByProjectIDServiceCurrency_aws elem) \<le> Costs elem \<Longrightarrow>
     fst (writeMetric_aws env elem a) = Success"
proof -
  assume le: "lookup0 (metricValuesA a) (groupByProjectIDServiceCurrency_aws elem) \<le> Costs elem"
  obtain n a1 ev1 where 1: "AccountNameByID env (ProjectIDA elem) a = (n, a1, ev1)"
    by (cases "AccountNameByID env (ProjectIDA elem) a") auto
  from AccountNameByID_frame [OF 1] have m: "metricValuesA a1 = metricValuesA a" by simp
  from le 1 m show ?thesis
    by (simp add: writeMetric_aws_def Let_def lookup0_init0 CounterAddTo_def
        groupByProjectIDServiceCurrency_aws_def)
qed

subsection \<open>Two limits of the fetchers\<close>

text \<open>
  Sequence characters that are a number are not checked against the size of the cache:
  a slot outside the array makes \<open>getReportFile\<close> panic. The AWS \<open>Query\<close>, unlike
  \<open>GetReports\<close>, returns an error when the listing has no object.
\<close>

lemma getReportFile_slot_out_of_range:
  "slotOf attr = Some i \<Longrightarrow> i < 0 \<or> ReportsPerMonth \<le> i \<Longrightarrow> getReportFile env attr g = (Panic, g, [])"
  by (auto simp: getReportFile_def slotOf_def Let_def split: if_splits option.splits)

lemma slot_out_of_range_example:
  "slotOf \<lparr>Name = ''prefix-2017-01-00.json'', MD5 = None\<rparr> = Some (- 1)
   \<and> slotOf \<lparr>Name = ''prefix-2017-01-33.json'', MD5 = None\<rparr> = Some 32"
  by (simp add: slotOf_def eval_atoi)

lemma Query_empty_listing:
  "ListObjects env (BucketNameA a) (fst (RootAccountID env a) @ ''-aws-billing-csv-'') = Some [] \<Longrightarrow>
     fst (Query env a) = Failure NoReportError \<and> fst (snd (Query env a)) = a"
  by (cases "RootAccountID env a") (simp add: Query_def)

end
